theory Spec2Isabelle
  imports Main "HOL-Library.Word"
begin

unbundle bit_operations_syntax

section \<open>The configuration watcher of main.go\<close>

text \<open>
  The Go package keeps a typed value \<open>T\<close> in memory and in a JSON file. The model is a
  sequential one: every function of main.go takes the watcher and returns it updated, or
  returns the panic that ended it.
  What the package calls and does not define is modelled as follows:
  \<^item> \<open>encoding/json\<close> is a parameter, a record of three functions on the value type,
    together with the dynamic type that \<open>atomic.Value\<close> sees in a value of \<open>T\<close>;
  \<^item> the file at \<open>w.filename\<close> is a record holding its bytes, if it exists, whether the
    operating system lets the process open it for reading and for writing, and how many
    bytes a write can put into it;
  \<^item> a panic of \<open>atomic.Value.Store\<close> is a result of its own: a function that panics
    returns the panic and no watcher;
  \<^item> the error channel is a buffer with a capacity;
  \<^item> the hub of \<open>chanhub\<close> is the count of subscriptions and of \<open>Broadcast\<close> calls.
\<close>

subsection \<open>Bytes, errors and the serializer\<close>

type_synonym bytes = string

text \<open>The three kinds of failure, named after the call that produced the Go error value.\<close>

datatype error = IOError string | SerializationError string | WatchError string

text \<open>
  \<open>json.Marshal\<close>, \<open>json.MarshalIndent\<close> and \<open>json.Unmarshal\<close> for the type \<open>T\<close>: each
  returns the bytes (or the value), or fails with a message. \<open>dyn_type\<close> is the dynamic
  type of a value of \<open>T\<close> once it is passed as an \<open>any\<close>: the name of \<open>T\<close> itself when
  \<open>T\<close> is not an interface type, the type of the value held when it is one, and \<open>None\<close>
  for the nil interface value.
\<close>

record 'v codec =
  json_Marshal :: "'v \<Rightarrow> string + bytes"
  json_MarshalIndent :: "'v \<Rightarrow> string + bytes"
  json_Unmarshal :: "bytes \<Rightarrow> string + 'v"
  dyn_type :: "'v \<Rightarrow> string option"

definition Marshal :: "'v codec \<Rightarrow> 'v \<Rightarrow> error + bytes" where
  "Marshal j v = map_sum SerializationError id (json_Marshal j v)"

definition MarshalIndent :: "'v codec \<Rightarrow> 'v \<Rightarrow> error + bytes" where
  "MarshalIndent j v = map_sum SerializationError id (json_MarshalIndent j v)"

text \<open>\<open>json.Unmarshal\<close> rejects an empty input before it looks at the type.\<close>

definition Unmarshal :: "'v codec \<Rightarrow> bytes \<Rightarrow> error + 'v" where
  "Unmarshal j data =
     (if data = [] then Inl (SerializationError ''unexpected end of JSON input'')
      else map_sum SerializationError id (json_Unmarshal j data))"

text \<open>
  \<open>ar, _ := json.Marshal(a)\<close>: the error is discarded and the byte slice is nil when the
  call failed. \<open>bytes.Equal\<close> does not tell a nil slice from an empty one.
\<close>

definition discard_err :: "error + bytes \<Rightarrow> bytes" where
  "discard_err r = (case r of Inl _ \<Rightarrow> [] | Inr b \<Rightarrow> b)"

definition equal_json :: "'v codec \<Rightarrow> 'v \<Rightarrow> 'v \<Rightarrow> bool" where
  "equal_json j a b =
     (let ar = discard_err (Marshal j a);
          br = discard_err (Marshal j b)
      in ar = br)"

subsection \<open>The file\<close>

text \<open>
  \<open>writable\<close>: the file may be opened for writing, and created when it is missing.
  \<open>room\<close>: the number of bytes a write can put into the file before the device refuses
  more; \<open>None\<close> when there is no limit.
\<close>

record osfile =
  content :: "bytes option"
  readable :: bool
  writable :: bool
  room :: "nat option"

text \<open>\<open>os.ReadFile\<close>: fails when the file is missing or may not be read.\<close>

definition os_ReadFile :: "osfile \<Rightarrow> error + bytes" where
  "os_ReadFile f =
     (case content f of
        None \<Rightarrow> Inl (IOError ''no such file or directory'')
      | Some data \<Rightarrow> if readable f then Inr data else Inl (IOError ''permission denied''))"

text \<open>
  \<open>os.WriteFile\<close> opens the file with \<open>O_WRONLY|O_CREATE|O_TRUNC\<close> and then writes. When
  the open fails the file is as it was. When the open succeeds the file exists and is
  empty, and a write that fails leaves in it the bytes written so far. The mode \<open>0o600\<close>
  is used only when the file is created.
\<close>

definition os_WriteFile :: "bytes \<Rightarrow> osfile \<Rightarrow> error option \<times> osfile" where
  "os_WriteFile data f =
     (if \<not> writable f then (Some (IOError ''open for writing failed''), f)
      else
        (case room f of
           None \<Rightarrow> (None, f\<lparr>content := Some data\<rparr>)
         | Some k \<Rightarrow>
             if length data \<le> k then (None, f\<lparr>content := Some data\<rparr>)
             else (Some (IOError ''no space left on device''),
                   f\<lparr>content := Some (take k data)\<rparr>)))"

subsection \<open>The error channel\<close>

text \<open>
  A Go channel of errors: its capacity and the values waiting in it. No receiver runs
  inside the model, so a send succeeds exactly when the buffer has room.
\<close>

record chan =
  cap :: nat
  buf :: "error list"

text \<open>\<open>select { case ch <- err: default: }\<close>\<close>

definition try_send :: "error \<Rightarrow> chan \<Rightarrow> chan" where
  "try_send e c = (if length (buf c) < cap c then c\<lparr>buf := buf c @ [e]\<rparr> else c)"

subsection \<open>The watcher\<close>

text \<open>The goroutine started by \<open>go w.watchFS()\<close>.\<close>

datatype task = NotStarted | Running | Returned

text \<open>
  The fields of \<open>Watcher[T]\<close>: \<open>hub\<close> (as \<open>subscriptions\<close> and \<open>broadcasts\<close>), \<open>value\<close>
  (as \<open>val\<close>, the value last stored), \<open>filename\<close>, \<open>errChan\<close> (\<open>None\<close> is the nil channel) and \<open>ctx\<close> (as
  \<open>ctx_done\<close>, whether \<open>w.cancel\<close> has been called). \<open>disk\<close> is the file named by
  \<open>filename\<close>, \<open>monitor\<close> the state of the goroutine, and \<open>loads\<close> counts the calls of
  \<open>load\<close>, so that a theorem can say whether \<open>load\<close> was invoked.
\<close>

record 'v watcher =
  subscriptions :: nat
  broadcasts :: nat
  val :: 'v
  filename :: string
  errChan :: "chan option"
  ctx_done :: bool
  monitor :: task
  disk :: osfile
  loads :: nat

text \<open>
  Modelled from the spec: \<open>chanhub.Hub\<close> is not part of the repository. \<open>broadcast()\<close>
  delivers one pulse to every active subscription and \<open>subscribe(scope)\<close> registers one.
\<close>

definition Broadcast :: "'v watcher \<Rightarrow> 'v watcher" where
  "Broadcast w = w\<lparr>broadcasts := Suc (broadcasts w)\<rparr>"

definition Subscribe :: "'v watcher \<Rightarrow> 'v watcher" where
  "Subscribe w = w\<lparr>subscriptions := Suc (subscriptions w)\<rparr>"

definition Get :: "'v watcher \<Rightarrow> 'v" where
  "Get w = val w"

text \<open>
  \<open>w.value.Store(x)\<close> on the \<open>atomic.Value\<close>: it panics on a nil interface value, and on
  a value whose dynamic type is not the type of the value stored before. A watcher holds
  a value from its construction on.
\<close>

datatype panic = StoreNil | StoreInconsistent

definition atomic_Store :: "'v codec \<Rightarrow> 'v \<Rightarrow> 'v watcher \<Rightarrow> panic + 'v watcher" where
  "atomic_Store j x w =
     (case dyn_type j x of
        None \<Rightarrow> Inl StoreNil
      | Some t \<Rightarrow>
          if dyn_type j (val w) = Some t then Inr (w\<lparr>val := x\<rparr>)
          else Inl StoreInconsistent)"

text \<open>\<open>sendError\<close>: \<open>None\<close> is the nil error.\<close>

definition sendError :: "error option \<Rightarrow> 'v watcher \<Rightarrow> 'v watcher" where
  "sendError err w =
     (case (errChan w, err) of
        (Some c, Some e) \<Rightarrow> w\<lparr>errChan := Some (try_send e c)\<rparr>
      | _ \<Rightarrow> w)"

definition writeFile :: "'v codec \<Rightarrow> 'v \<Rightarrow> 'v watcher \<Rightarrow> error option \<times> 'v watcher" where
  "writeFile j cfg w =
     (case MarshalIndent j cfg of
        Inl err \<Rightarrow> (Some err, sendError (Some err) w)
      | Inr data \<Rightarrow>
          (case os_WriteFile data (disk w) of
             (Some err, f) \<Rightarrow> (Some err, sendError (Some err) (w\<lparr>disk := f\<rparr>))
           | (None, f) \<Rightarrow> (None, w\<lparr>disk := f\<rparr>)))"

definition load :: "'v codec \<Rightarrow> 'v watcher \<Rightarrow> panic + 'v watcher" where
  "load j w0 =
     (let w = w0\<lparr>loads := Suc (loads w0)\<rparr> in
      case os_ReadFile (disk w) of
        Inl err \<Rightarrow>
          (let w1 = sendError (Some err) w in Inr (snd (writeFile j (Get w1) w1)))
      | Inr data \<Rightarrow>
          if length data = 0 then Inr (snd (writeFile j (Get w) w))
          else
            (case Unmarshal j data of
               Inl err \<Rightarrow> Inr (sendError (Some err) w)
             | Inr newVal \<Rightarrow>
                 (let cur = Get w in
                  if \<not> equal_json j cur newVal
                  then (case atomic_Store j newVal w of
                          Inl p \<Rightarrow> Inl p
                        | Inr w' \<Rightarrow> Inr (Broadcast w'))
                  else Inr w)))"

definition Save ::
  "'v codec \<Rightarrow> 'v \<Rightarrow> 'v watcher \<Rightarrow> panic + (error option \<times> 'v watcher)" where
  "Save j cfg w =
     (case MarshalIndent j cfg of
        Inl err \<Rightarrow> Inr (Some err, sendError (Some err) w)
      | Inr data \<Rightarrow>
          (case os_WriteFile data (disk w) of
             (Some err, f) \<Rightarrow> Inr (Some err, sendError (Some err) (w\<lparr>disk := f\<rparr>))
           | (None, f) \<Rightarrow>
               (case load j (w\<lparr>disk := f\<rparr>) of
                  Inl p \<Rightarrow> Inl p
                | Inr w' \<Rightarrow> Inr (None, w'))))"

subsection \<open>The monitor\<close>

text \<open>An event of fsnotify: the path and the bit set of operations (\<open>Op\<close> is a uint32).\<close>

record event =
  ev_Name :: string
  ev_Op :: "32 word"

text \<open>The operations of fsnotify: \<open>Create Op = 1 << iota\<close>, then the four others.\<close>

definition fsnotify_Create :: "32 word" where "fsnotify_Create = 1"
definition fsnotify_Write :: "32 word" where "fsnotify_Write = 2"
definition fsnotify_Remove :: "32 word" where "fsnotify_Remove = 4"
definition fsnotify_Rename :: "32 word" where "fsnotify_Rename = 8"
definition fsnotify_Chmod :: "32 word" where "fsnotify_Chmod = 16"

text \<open>\<open>v, ok := <-ch\<close>: a value, or the channel is closed.\<close>

datatype 'a recv = Closed | Recv 'a

text \<open>
  The case that one \<open>select\<close> of \<open>watchFS\<close> takes: the context is done, an event arrives,
  or an error arrives (a Go error value may be nil).
\<close>

datatype select = SelDone | SelEvents "event recv" | SelErrors "error option recv"

definition relevant :: "'v watcher \<Rightarrow> event \<Rightarrow> bool" where
  "relevant w ev \<longleftrightarrow>
     ev_Name ev = filename w \<and>
     (ev_Op ev AND fsnotify_Write = fsnotify_Write \<or>
      ev_Op ev AND fsnotify_Create = fsnotify_Create)"

text \<open>
  The loop of \<open>watchFS\<close> over the cases its selects take, in order: when several cases
  are ready Go takes any of them, so the list is any order in which ready cases were
  taken. At the end of the list the goroutine is waiting in \<open>select\<close>. The case of
  \<open>ctx.Done()\<close> can only be taken once the context is cancelled; before that the entry is
  passed over. A panic of \<open>load\<close> ends the goroutine and the program.
\<close>

fun watchFS :: "'v codec \<Rightarrow> select list \<Rightarrow> 'v watcher \<Rightarrow> panic + 'v watcher" where
  "watchFS j [] w = Inr w"
| "watchFS j (SelDone # rest) w =
     (if ctx_done w then Inr (w\<lparr>monitor := Returned\<rparr>) else watchFS j rest w)"
| "watchFS j (SelEvents Closed # rest) w = Inr (w\<lparr>monitor := Returned\<rparr>)"
| "watchFS j (SelEvents (Recv ev) # rest) w =
     (if relevant w ev
      then (case load j w of Inl p \<Rightarrow> Inl p | Inr w' \<Rightarrow> watchFS j rest w')
      else watchFS j rest w)"
| "watchFS j (SelErrors Closed # rest) w = Inr (w\<lparr>monitor := Returned\<rparr>)"
| "watchFS j (SelErrors (Recv err) # rest) w = watchFS j rest (sendError err w)"

subsection \<open>Construction\<close>

text \<open>
  What \<open>NewWatcher\<close> asks of \<open>path/filepath\<close> and of fsnotify: \<open>filepath.Abs\<close>,
  \<open>filepath.Dir\<close>, whether \<open>fsnotify.NewWatcher()\<close> fails and whether \<open>Add(dir)\<close> does.
\<close>

record env =
  filepath_Abs :: "string \<Rightarrow> string"
  filepath_Dir :: "string \<Rightarrow> string"
  fsnotify_NewWatcher :: "error option"
  fsw_Add :: "string \<Rightarrow> error option"

type_synonym 'v Option = "'v watcher \<Rightarrow> 'v watcher"

definition WithErrorChan :: "chan option \<Rightarrow> 'v Option" where
  "WithErrorChan ch = (\<lambda>w. w\<lparr>errChan := ch\<rparr>)"

text \<open>
  \<open>NewWatcher\<close>. The first \<open>Store\<close> finds the \<open>atomic.Value\<close> empty and panics only on a
  nil interface value.
\<close>

definition NewWatcher ::
  "'v codec \<Rightarrow> env \<Rightarrow> osfile \<Rightarrow> 'v \<Rightarrow> string \<Rightarrow> 'v Option list \<Rightarrow> panic + 'v watcher" where
  "NewWatcher j os f defaultVal fname opts =
     (let absFile = filepath_Abs os fname;
          w = \<lparr>subscriptions = 0, broadcasts = 0, val = defaultVal, filename = absFile,
               errChan = None, ctx_done = False, monitor = NotStarted, disk = f, loads = 0\<rparr>
      in case dyn_type j defaultVal of
           None \<Rightarrow> Inl StoreNil
         | Some t \<Rightarrow>
             (case load j w of
                Inl p \<Rightarrow> Inl p
              | Inr w \<Rightarrow>
                  (let w = foldl (\<lambda>w opt. opt w) w opts in
                   case fsnotify_NewWatcher os of
                     Some err \<Rightarrow> Inr (sendError (Some err) w)
                   | None \<Rightarrow>
                       (let dir = filepath_Dir os absFile;
                            w = (case fsw_Add os dir of
                                   Some err \<Rightarrow> sendError (Some err) w
                                 | None \<Rightarrow> w)
                        in Inr (w\<lparr>ctx_done := False, monitor := Running\<rparr>)))))"

text \<open>
  \<open>w.ctx, w.cancel = context.WithCancel(context.Background())\<close>: the function kept in
  \<open>w.cancel\<close>. No function of main.go calls it.
\<close>

definition cancel :: "'v watcher \<Rightarrow> 'v watcher" where
  "cancel w = w\<lparr>ctx_done := True\<rparr>"

text \<open>The exported methods of \<open>*Watcher[T]\<close>, as calls a client can make.\<close>

datatype 'v call = CallGet | CallSubscribe | CallSave 'v

fun exec :: "'v codec \<Rightarrow> 'v call \<Rightarrow> 'v watcher \<Rightarrow> panic + 'v watcher" where
  "exec j CallGet w = Inr w"
| "exec j CallSubscribe w = Inr (Subscribe w)"
| "exec j (CallSave cfg) w =
     (case Save j cfg w of Inl p \<Rightarrow> Inl p | Inr (err, w') \<Rightarrow> Inr w')"

text \<open>A client that makes the calls of a list one after the other, up to a panic.\<close>

fun calls :: "'v codec \<Rightarrow> 'v call list \<Rightarrow> 'v watcher \<Rightarrow> panic + 'v watcher" where
  "calls j [] w = Inr w"
| "calls j (c # cs) w = (case exec j c w of Inl p \<Rightarrow> Inl p | Inr w' \<Rightarrow> calls j cs w')"

subsection \<open>Two small instances\<close>

text \<open>
  A value type with three values and a serializer for it, to run the definitions on. The
  value \<open>Neg\<close> can be read from a file and cannot be written, as a Go type whose
  \<open>MarshalJSON\<close> rejects some of its values. The type is not an interface type: every
  value has the one dynamic type.
\<close>

datatype level = One | Two | Neg

definition level_marshal :: "level \<Rightarrow> string + bytes" where
  "level_marshal v =
     (case v of One \<Rightarrow> Inr ''1'' | Two \<Rightarrow> Inr ''2'' | Neg \<Rightarrow> Inl ''unsupported value'')"

definition level_unmarshal :: "bytes \<Rightarrow> string + level" where
  "level_unmarshal data =
     (if data = ''1'' then Inr One
      else if data = ''2'' then Inr Two
      else if data = ''-1'' then Inr Neg
      else Inl ''invalid character'')"

definition level_codec :: "level codec" where
  "level_codec =
     \<lparr>json_Marshal = level_marshal, json_MarshalIndent = level_marshal,
      json_Unmarshal = level_unmarshal, dyn_type = (\<lambda>v. Some ''main.Level'')\<rparr>"

text \<open>
  \<open>T = any\<close>, cut down to four JSON documents: \<open>null\<close>, \<open>true\<close>, \<open>false\<close> and \<open>[]\<close>.
  \<open>json.Unmarshal\<close> into an \<open>any\<close> gives nil, a \<open>bool\<close> or a \<open>[]interface {}\<close>.
\<close>

datatype anyval = Nil | Flag bool | Items

definition any_marshal :: "anyval \<Rightarrow> string + bytes" where
  "any_marshal v =
     (case v of
        Nil \<Rightarrow> Inr ''null''
      | Flag b \<Rightarrow> Inr (if b then ''true'' else ''false'')
      | Items \<Rightarrow> Inr ''[]'')"

definition any_unmarshal :: "bytes \<Rightarrow> string + anyval" where
  "any_unmarshal data =
     (if data = ''null'' then Inr Nil
      else if data = ''true'' then Inr (Flag True)
      else if data = ''false'' then Inr (Flag False)
      else if data = ''[]'' then Inr Items
      else Inl ''invalid character'')"

definition any_type :: "anyval \<Rightarrow> string option" where
  "any_type v =
     (case v of Nil \<Rightarrow> None | Flag b \<Rightarrow> Some ''bool'' | Items \<Rightarrow> Some ''[]interface {}'')"

definition any_codec :: "anyval codec" where
  "any_codec =
     \<lparr>json_Marshal = any_marshal, json_MarshalIndent = any_marshal,
      json_Unmarshal = any_unmarshal, dyn_type = any_type\<rparr>"

definition any_watcher_on :: "osfile \<Rightarrow> anyval \<Rightarrow> anyval watcher" where
  "any_watcher_on f v =
     \<lparr>subscriptions = 0, broadcasts = 0, val = v, filename = ''/etc/app/config.json'',
      errChan = None, ctx_done = False, monitor = Running, disk = f, loads = 0\<rparr>"

definition file_of :: "bytes \<Rightarrow> osfile" where
  "file_of data = \<lparr>content = Some data, readable = True, writable = True, room = None\<rparr>"

definition missing_file :: osfile where
  "missing_file = \<lparr>content = None, readable = True, writable = True, room = None\<rparr>"

definition sink :: "nat \<Rightarrow> chan" where
  "sink n = \<lparr>cap = n, buf = []\<rparr>"

definition watcher_on :: "osfile \<Rightarrow> level \<Rightarrow> level watcher" where
  "watcher_on f v =
     \<lparr>subscriptions = 0, broadcasts = 0, val = v, filename = ''/etc/app/config.json'',
      errChan = Some (sink 4), ctx_done = False, monitor = Running, disk = f, loads = 0\<rparr>"

definition posix :: env where
  "posix =
     \<lparr>filepath_Abs = (\<lambda>p. ''/etc/app/'' @ p), filepath_Dir = (\<lambda>p. ''/etc/app''),
      fsnotify_NewWatcher = None, fsw_Add = (\<lambda>d. None)\<rparr>"

definition write_only_file :: osfile where
  "write_only_file =
     \<lparr>content = Some ''1'', readable = False, writable = True, room = None\<rparr>"

definition read_only_empty_file :: osfile where
  "read_only_empty_file =
     \<lparr>content = Some [], readable = True, writable = False, room = None\<rparr>"

text \<open>A path in a directory that does not exist, as in \<open>TestWatcherErrorHandling\<close>.\<close>

definition no_such_directory :: osfile where
  "no_such_directory =
     \<lparr>content = None, readable = False, writable = False, room = None\<rparr>"

text \<open>A file on a device that is full.\<close>

definition file_on_full_device :: "bytes \<Rightarrow> osfile" where
  "file_on_full_device data =
     \<lparr>content = Some data, readable = True, writable = True, room = Some 0\<rparr>"

definition cancelled :: "level watcher" where
  "cancelled = cancel (watcher_on (file_of ''2'') One)"

definition config_event :: "32 word \<Rightarrow> event" where
  "config_event op = \<lparr>ev_Name = ''/etc/app/config.json'', ev_Op = op\<rparr>"

subsection \<open>What an error channel holds after an offer\<close>

text \<open>
  The channel after a non-blocking send of \<open>e\<close>, written out: nothing changes when there
  is no channel or no room, and \<open>e\<close> is the last element of the buffer otherwise.
\<close>

abbreviation (input) offered :: "error \<Rightarrow> chan option \<Rightarrow> chan option" where
  "offered e ch \<equiv>
     (case ch of
        None \<Rightarrow> None
      | Some c \<Rightarrow> Some (if length (buf c) < cap c then c\<lparr>buf := buf c @ [e]\<rparr> else c))"

section \<open>Properties\<close>

subsection \<open>What the operations leave alone\<close>

lemma sendError_fields:
  "val (sendError e w) = val w" "broadcasts (sendError e w) = broadcasts w"
  "disk (sendError e w) = disk w" "loads (sendError e w) = loads w"
  "filename (sendError e w) = filename w" "ctx_done (sendError e w) = ctx_done w"
  "monitor (sendError e w) = monitor w" "subscriptions (sendError e w) = subscriptions w"
  by (simp_all add: sendError_def split: option.splits)

lemma sendError_offered: "errChan (sendError (Some e) w) = offered e (errChan w)"
  by (simp add: sendError_def try_send_def split: option.splits)

lemma sendError_no_sink: "errChan w = None \<Longrightarrow> sendError e w = w"
  by (simp add: sendError_def)

lemma writeFile_fields:
  "val (snd (writeFile j v w)) = val w" "broadcasts (snd (writeFile j v w)) = broadcasts w"
  "loads (snd (writeFile j v w)) = loads w" "filename (snd (writeFile j v w)) = filename w"
  "ctx_done (snd (writeFile j v w)) = ctx_done w" "monitor (snd (writeFile j v w)) = monitor w"
  "subscriptions (snd (writeFile j v w)) = subscriptions w"
  by (simp_all add: writeFile_def sendError_fields split: sum.splits prod.splits option.splits)

lemma writeFile_no_sink: "errChan w = None \<Longrightarrow> errChan (snd (writeFile j v w)) = None"
  by (simp add: writeFile_def sendError_no_sink split: sum.splits prod.splits option.splits)

lemma atomic_Store_Inr: "atomic_Store j x w = Inr w' \<Longrightarrow> w' = w\<lparr>val := x\<rparr>"
  by (auto simp: atomic_Store_def split: option.splits if_splits)

lemma atomic_Store_Inl:
  "atomic_Store j x w = Inl p \<Longrightarrow> dyn_type j x = None \<or> dyn_type j x \<noteq> dyn_type j (val w)"
  by (auto simp: atomic_Store_def split: option.splits if_splits)

lemma atomic_Store_same_type:
  "dyn_type j x = Some t \<Longrightarrow> dyn_type j (val w) = Some t \<Longrightarrow>
   atomic_Store j x w = Inr (w\<lparr>val := x\<rparr>)"
  by (simp add: atomic_Store_def)

lemma load_fields:
  assumes "load j w = Inr w'"
  shows "loads w' = Suc (loads w)" "filename w' = filename w" "ctx_done w' = ctx_done w"
    "monitor w' = monitor w" "subscriptions w' = subscriptions w"
  using assms
  by (auto simp: load_def Let_def Broadcast_def sendError_fields writeFile_fields
      dest!: atomic_Store_Inr split: sum.splits if_splits)

lemma load_no_sink: "errChan w = None \<Longrightarrow> load j w = Inr w' \<Longrightarrow> errChan w' = None"
  by (auto simp: load_def Let_def sendError_no_sink writeFile_no_sink Broadcast_def
      dest!: atomic_Store_Inr split: sum.splits if_splits)

lemma Save_fields:
  assumes "Save j v w = Inr (r, w')"
  shows "filename w' = filename w" "ctx_done w' = ctx_done w" "monitor w' = monitor w"
  using assms
  by (auto simp: Save_def sendError_fields dest: load_fields
      split: sum.splits prod.splits option.splits)

subsection \<open>The library calls\<close>

lemma ReadFile_error: "os_ReadFile f = Inl e \<Longrightarrow> \<exists>m. e = IOError m"
  by (auto simp: os_ReadFile_def split: option.splits if_splits)

lemma WriteFile_done: "os_WriteFile data f = (None, f') \<Longrightarrow> f' = f\<lparr>content := Some data\<rparr>"
  by (auto simp: os_WriteFile_def split: option.splits if_splits)

lemma WriteFile_on_full_device:
  "os_WriteFile ''12'' (file_on_full_device ''old'')
     = (Some (IOError ''no space left on device''),
        (file_on_full_device ''old'')\<lparr>content := Some []\<rparr>)"
  by (simp add: os_WriteFile_def file_on_full_device_def)

lemma Unmarshal_error: "Unmarshal j data = Inl e \<Longrightarrow> \<exists>m. e = SerializationError m"
  by (cases "json_Unmarshal j data") (auto simp: Unmarshal_def split: if_splits)

lemma Unmarshal_not_empty: "Unmarshal j data = Inr n \<Longrightarrow> data \<noteq> []"
  by (auto simp: Unmarshal_def)

lemma equal_json_trans: "equal_json j a b \<Longrightarrow> equal_json j b c \<Longrightarrow> equal_json j a c"
  by (simp add: equal_json_def Let_def)

subsection \<open>The three results of writeFile\<close>

lemma writeFile_marshal_fails:
  "MarshalIndent j v = Inl e \<Longrightarrow> snd (writeFile j v w) = sendError (Some e) w"
  by (simp add: writeFile_def)

lemma writeFile_write_fails:
  "MarshalIndent j v = Inr data \<Longrightarrow> os_WriteFile data (disk w) = (Some e, f) \<Longrightarrow>
   snd (writeFile j v w) = sendError (Some e) (w\<lparr>disk := f\<rparr>)"
  by (simp add: writeFile_def)

lemma writeFile_written:
  "MarshalIndent j v = Inr data \<Longrightarrow> os_WriteFile data (disk w) = (None, f) \<Longrightarrow>
   snd (writeFile j v w) = w\<lparr>disk := f\<rparr>"
  by (simp add: writeFile_def)

lemma writeFile_outcome:
  "(case MarshalIndent j v of
      Inl e' \<Rightarrow> errChan (snd (writeFile j v w)) = offered e' (errChan w)
    | Inr data \<Rightarrow>
        (case os_WriteFile data (disk w) of
           (None, f) \<Rightarrow> content (disk (snd (writeFile j v w))) = Some data
               \<and> errChan (snd (writeFile j v w)) = errChan w
         | (Some e', f) \<Rightarrow> errChan (snd (writeFile j v w)) = offered e' (errChan w)))"
proof (cases "MarshalIndent j v")
  case (Inl e')
  then show ?thesis by (simp add: writeFile_marshal_fails sendError_offered)
next
  case (Inr data)
  obtain r f where wf: "os_WriteFile data (disk w) = (r, f)" by (cases "os_WriteFile data (disk w)")
  show ?thesis
  proof (cases r)
    case None
    with Inr wf WriteFile_done [of data "disk w" f] show ?thesis
      by (simp add: writeFile_written)
  next
    case (Some e')
    with Inr wf show ?thesis
      by (simp add: writeFile_write_fails sendError_offered)
  qed
qed

lemmas go_defs = load_def Save_def writeFile_def sendError_def try_send_def os_ReadFile_def
  os_WriteFile_def Marshal_def MarshalIndent_def Unmarshal_def equal_json_def discard_err_def
  Get_def Broadcast_def Subscribe_def NewWatcher_def WithErrorChan_def relevant_def cancel_def
  atomic_Store_def Let_def

lemmas level_defs = level_codec_def level_marshal_def level_unmarshal_def file_of_def
  missing_file_def sink_def watcher_on_def posix_def write_only_file_def
  read_only_empty_file_def no_such_directory_def file_on_full_device_def cancelled_def
  config_event_def

lemmas any_defs = any_codec_def any_marshal_def any_unmarshal_def any_type_def
  any_watcher_on_def file_of_def

subsection \<open>The four cases of load\<close>

lemma load_after_decode:
  assumes "os_ReadFile (disk w) = Inr data" and "Unmarshal j data = Inr n"
  shows "load j w =
           (if equal_json j (val w) n then Inr (w\<lparr>loads := Suc (loads w)\<rparr>)
            else (case atomic_Store j n (w\<lparr>loads := Suc (loads w)\<rparr>) of
                    Inl p \<Rightarrow> Inl p
                  | Inr w' \<Rightarrow> Inr (Broadcast w')))"
  using assms Unmarshal_not_empty [OF assms(2)]
  by (simp add: load_def Get_def Let_def)

text \<open>
  What \<open>load\<close> does with a file that deserializes to \<open>n\<close>, where \<open>atomic.Value\<close> accepts
  \<open>n\<close>: the value is replaced and one broadcast made when \<open>n\<close> differs from the current
  value under \<open>equal\<close>, and nothing is stored or broadcast when it does not.
\<close>

lemma load_decoded:
  assumes "os_ReadFile (disk w) = Inr data" and "Unmarshal j data = Inr n"
    and "dyn_type j n = Some t" and "dyn_type j (Get w) = Some t"
  shows "\<exists>w'. load j w = Inr w'
         \<and> (if equal_json j (Get w) n
            then Get w' = Get w \<and> broadcasts w' = broadcasts w
            else Get w' = n \<and> broadcasts w' = Suc (broadcasts w))
         \<and> disk w' = disk w \<and> errChan w' = errChan w"
  using assms(3,4)
  by (simp add: load_after_decode [OF assms(1,2)] Get_def atomic_Store_def Broadcast_def)

text \<open>
  C1. The claim holds of \<open>load\<close> as its comment describes it and fails in the code for an
  interface type \<open>T\<close>: with \<open>T = any\<close>, the value \<open>true\<close> and a file holding \<open>[]\<close>, the
  file deserializes, the two values differ under \<open>equal\<close>, and \<open>w.value.Store\<close> panics on
  the changed dynamic type. Nothing is stored, nothing is broadcast and \<open>load\<close> does not
  return.
\<close>

theorem load_panics_on_type_change:
  "os_ReadFile (disk (any_watcher_on (file_of ''[]'') (Flag True))) = Inr ''[]''
   \<and> Unmarshal any_codec ''[]'' = Inr Items
   \<and> \<not> equal_json any_codec (Get (any_watcher_on (file_of ''[]'') (Flag True))) Items
   \<and> load any_codec (any_watcher_on (file_of ''[]'') (Flag True)) = Inl StoreInconsistent"
  by (simp add: go_defs any_defs)

text \<open>
  C3. When the file is read, is not empty and does not deserialize, \<open>load\<close> offers the
  error of \<open>Unmarshal\<close>, a \<open>SerializationError\<close>, to the error channel, changes nothing
  else and returns: \<open>Get\<close> gives the value it gave before, there is no broadcast and the
  file is untouched.
\<close>

theorem load_malformed:
  assumes "os_ReadFile (disk w) = Inr data" and "data \<noteq> []"
    and "Unmarshal j data = Inl e"
  shows "(\<exists>m. e = SerializationError m)
         \<and> (\<exists>w'. load j w = Inr w'
              \<and> errChan w' = map_option (try_send e) (errChan w)
              \<and> Get w' = Get w \<and> broadcasts w' = broadcasts w \<and> disk w' = disk w)"
  using assms Unmarshal_error [OF assms(3)]
  by (simp add: load_def Get_def Let_def sendError_def split: option.splits)

text \<open>C3 on a file holding an open brace: the error is in the channel, the value is kept.\<close>

theorem load_malformed_witness:
  "os_ReadFile (disk (watcher_on (file_of ''{'') One)) = Inr ''{'' \<and> ''{'' \<noteq> []
   \<and> Unmarshal level_codec ''{'' = Inl (SerializationError ''invalid character'')
   \<and> (\<exists>w'. load level_codec (watcher_on (file_of ''{'') One) = Inr w'
        \<and> errChan w' = Some \<lparr>cap = 4, buf = [SerializationError ''invalid character'']\<rparr>
        \<and> Get w' = One \<and> broadcasts w' = 0)"
proof -
  let ?w = "watcher_on (file_of ''{'') One"
  have h: "os_ReadFile (disk ?w) = Inr ''{''" "''{'' \<noteq> []"
    "Unmarshal level_codec ''{'' = Inl (SerializationError ''invalid character'')"
    by (simp_all add: os_ReadFile_def Unmarshal_def level_defs)
  obtain w' where run: "load level_codec ?w = Inr w'"
    "errChan w' = Some \<lparr>cap = 4, buf = [SerializationError ''invalid character'']\<rparr>"
    by (simp add: go_defs level_defs)
  have w: "Get ?w = One" "broadcasts ?w = 0"
    by (simp_all add: Get_def level_defs)
  from load_malformed [OF h] h w run show ?thesis by auto
qed

text \<open>
  C4, as amended. When the file is missing or cannot be read, \<open>load\<close> offers the
  \<open>IOError\<close> to the error channel and then calls \<open>writeFile\<close> on the current value, with
  no further call of \<open>load\<close>, and returns; the stored value and the broadcast count do not
  change. When the current value has an encoding and the write succeeds, the file holds
  that encoding afterwards. When there is no encoding or the write fails, that failure is
  offered to the channel as a second error.
\<close>

theorem load_unreadable:
  assumes "os_ReadFile (disk w) = Inl e"
  shows "(\<exists>m. e = IOError m)
     \<and> (\<exists>w'. load j w = Inr w'
          \<and> Get w' = Get w \<and> broadcasts w' = broadcasts w \<and> loads w' = Suc (loads w)
          \<and> (case MarshalIndent j (Get w) of
               Inl e' \<Rightarrow> errChan w' = offered e' (offered e (errChan w))
             | Inr data \<Rightarrow>
                 (case os_WriteFile data (disk w) of
                    (None, f) \<Rightarrow> content (disk w') = Some data
                        \<and> errChan w' = offered e (errChan w)
                  | (Some e', f) \<Rightarrow> errChan w' = offered e' (offered e (errChan w)))))"
proof -
  define w1 where "w1 = sendError (Some e) (w\<lparr>loads := Suc (loads w)\<rparr>)"
  have ld: "load j w = Inr (snd (writeFile j (Get w) w1))"
    using assms by (simp add: load_def Let_def Get_def sendError_fields w1_def)
  have w1: "disk w1 = disk w" "errChan w1 = offered e (errChan w)"
    by (simp_all add: w1_def sendError_def try_send_def split: option.splits)
  have keep: "Get (snd (writeFile j (Get w) w1)) = Get w"
    "broadcasts (snd (writeFile j (Get w) w1)) = broadcasts w"
    "loads (snd (writeFile j (Get w) w1)) = Suc (loads w)"
    by (simp_all add: Get_def writeFile_fields w1_def sendError_fields)
  from writeFile_outcome [of j "Get w" w1]
  have outcome: "(case MarshalIndent j (Get w) of
               Inl e' \<Rightarrow> errChan (snd (writeFile j (Get w) w1)) = offered e' (offered e (errChan w))
             | Inr data \<Rightarrow>
                 (case os_WriteFile data (disk w) of
                    (None, f) \<Rightarrow> content (disk (snd (writeFile j (Get w) w1))) = Some data
                        \<and> errChan (snd (writeFile j (Get w) w1)) = offered e (errChan w)
                  | (Some e', f) \<Rightarrow>
                      errChan (snd (writeFile j (Get w) w1)) = offered e' (offered e (errChan w))))"
    by (simp only: w1)
  from ReadFile_error [OF assms] ld keep outcome show ?thesis by blast
qed

text \<open>
  C4 on a missing file in a writable directory, where the file is created from the value,
  and on a missing file in a directory that does not exist, where the second error follows
  the first in the channel.
\<close>

theorem load_unreadable_witness:
  "os_ReadFile (disk (watcher_on missing_file One)) = Inl (IOError ''no such file or directory'')
   \<and> MarshalIndent level_codec (Get (watcher_on missing_file One)) = Inr ''1''
   \<and> fst (os_WriteFile ''1'' (disk (watcher_on missing_file One))) = None
   \<and> (\<exists>w'. load level_codec (watcher_on missing_file One) = Inr w'
        \<and> content (disk w') = Some ''1''
        \<and> errChan w' = Some \<lparr>cap = 4, buf = [IOError ''no such file or directory'']\<rparr>
        \<and> Get w' = One)
   \<and> fst (os_WriteFile ''1'' (disk (watcher_on no_such_directory One)))
       = Some (IOError ''open for writing failed'')
   \<and> (\<exists>w'. load level_codec (watcher_on no_such_directory One) = Inr w'
        \<and> errChan w' = Some \<lparr>cap = 4, buf = [IOError ''no such file or directory'',
                                              IOError ''open for writing failed'']\<rparr>
        \<and> Get w' = One \<and> broadcasts w' = 0)"
proof -
  let ?w = "watcher_on missing_file One"
  have h: "os_ReadFile (disk ?w) = Inl (IOError ''no such file or directory'')"
    by (simp add: os_ReadFile_def level_defs)
  have m: "MarshalIndent level_codec (Get ?w) = Inr ''1''"
    "os_WriteFile ''1'' (disk ?w) = (None, (disk ?w)\<lparr>content := Some ''1''\<rparr>)"
    by (simp_all add: MarshalIndent_def os_WriteFile_def Get_def level_defs)
  obtain w' where run: "load level_codec ?w = Inr w'"
    "errChan w' = Some \<lparr>cap = 4, buf = [IOError ''no such file or directory'']\<rparr>"
    "content (disk w') = Some ''1''"
    by (simp add: go_defs level_defs)
  have w: "Get ?w = One" by (simp add: Get_def level_defs)
  let ?n = "watcher_on no_such_directory One"
  have hn: "os_ReadFile (disk ?n) = Inl (IOError ''no such file or directory'')"
    by (simp add: os_ReadFile_def level_defs)
  have mn: "MarshalIndent level_codec (Get ?n) = Inr ''1''"
    "os_WriteFile ''1'' (disk ?n) = (Some (IOError ''open for writing failed''), disk ?n)"
    by (simp_all add: MarshalIndent_def os_WriteFile_def Get_def level_defs)
  obtain n' where runn: "load level_codec ?n = Inr n'"
    "errChan n' = Some \<lparr>cap = 4, buf = [IOError ''no such file or directory'',
                                         IOError ''open for writing failed'']\<rparr>"
    by (simp add: go_defs level_defs)
  have wn: "Get ?n = One" "broadcasts ?n = 0" by (simp_all add: Get_def level_defs)
  from load_unreadable [OF hn, of level_codec] runn wn
  have cn: "\<exists>w'. load level_codec ?n = Inr w'
        \<and> errChan w' = Some \<lparr>cap = 4, buf = [IOError ''no such file or directory'',
                                              IOError ''open for writing failed'']\<rparr>
        \<and> Get w' = One \<and> broadcasts w' = 0"
    by auto
  from load_unreadable [OF h, of level_codec] h m w run
  have c: "\<exists>w'. load level_codec ?w = Inr w'
        \<and> content (disk w') = Some ''1''
        \<and> errChan w' = Some \<lparr>cap = 4, buf = [IOError ''no such file or directory'']\<rparr>
        \<and> Get w' = One"
    by auto
  from h m mn c cn show ?thesis by simp
qed

text \<open>
  C4 as stated fails where the file cannot be created: the path of
  \<open>TestWatcherErrorHandling\<close> lies in a directory that does not exist, and the file is
  still missing after \<open>load\<close>.
\<close>

theorem load_unreadable_counterexample:
  "os_ReadFile (disk (watcher_on no_such_directory One))
     = Inl (IOError ''no such file or directory'')
   \<and> (\<exists>w'. load level_codec (watcher_on no_such_directory One) = Inr w'
        \<and> content (disk w') = None)"
  by (simp add: go_defs level_defs)

text \<open>
  C6, as amended. When the file is present and empty, \<open>load\<close> calls \<open>writeFile\<close> on the
  current value and returns; nothing is stored and nothing is broadcast. When the current
  value has an encoding and the write succeeds, the file holds that encoding afterwards
  and the error channel is as it was. When there is no encoding or the write fails, that
  failure is offered to the error channel.
\<close>

theorem load_empty:
  assumes "os_ReadFile (disk w) = Inr []"
  shows "\<exists>w'. load j w = Inr w'
     \<and> Get w' = Get w \<and> broadcasts w' = broadcasts w \<and> loads w' = Suc (loads w)
     \<and> (case MarshalIndent j (Get w) of
          Inl e \<Rightarrow> errChan w' = offered e (errChan w)
        | Inr data \<Rightarrow>
            (case os_WriteFile data (disk w) of
               (None, f) \<Rightarrow> content (disk w') = Some data \<and> errChan w' = errChan w
             | (Some e, f) \<Rightarrow> errChan w' = offered e (errChan w)))"
proof -
  define w1 where "w1 = w\<lparr>loads := Suc (loads w)\<rparr>"
  have ld: "load j w = Inr (snd (writeFile j (Get w) w1))"
    using assms by (simp add: load_def Let_def Get_def w1_def)
  have w1: "disk w1 = disk w" "errChan w1 = errChan w"
    by (simp_all add: w1_def)
  have keep: "Get (snd (writeFile j (Get w) w1)) = Get w"
    "broadcasts (snd (writeFile j (Get w) w1)) = broadcasts w"
    "loads (snd (writeFile j (Get w) w1)) = Suc (loads w)"
    by (simp_all add: Get_def writeFile_fields w1_def)
  from writeFile_outcome [of j "Get w" w1]
  have outcome: "(case MarshalIndent j (Get w) of
          Inl e \<Rightarrow> errChan (snd (writeFile j (Get w) w1)) = offered e (errChan w)
        | Inr data \<Rightarrow>
            (case os_WriteFile data (disk w) of
               (None, f) \<Rightarrow> content (disk (snd (writeFile j (Get w) w1))) = Some data
                   \<and> errChan (snd (writeFile j (Get w) w1)) = errChan w
             | (Some e, f) \<Rightarrow> errChan (snd (writeFile j (Get w) w1)) = offered e (errChan w)))"
    by (simp only: w1)
  from ld keep outcome show ?thesis by blast
qed

text \<open>
  C6 on an empty, writable file, where the file is filled and the channel stays empty, and
  on an empty file on a full device, where the error of the write is in the channel.
\<close>

theorem load_empty_witness:
  "os_ReadFile (disk (watcher_on (file_of []) One)) = Inr []
   \<and> MarshalIndent level_codec (Get (watcher_on (file_of []) One)) = Inr ''1''
   \<and> fst (os_WriteFile ''1'' (disk (watcher_on (file_of []) One))) = None
   \<and> (\<exists>w'. load level_codec (watcher_on (file_of []) One) = Inr w'
        \<and> content (disk w') = Some ''1''
        \<and> errChan w' = Some \<lparr>cap = 4, buf = []\<rparr> \<and> Get w' = One)
   \<and> os_ReadFile (disk (watcher_on (file_on_full_device []) One)) = Inr []
   \<and> fst (os_WriteFile ''1'' (disk (watcher_on (file_on_full_device []) One)))
       = Some (IOError ''no space left on device'')
   \<and> (\<exists>w'. load level_codec (watcher_on (file_on_full_device []) One) = Inr w'
        \<and> errChan w' = Some \<lparr>cap = 4, buf = [IOError ''no space left on device'']\<rparr>
        \<and> Get w' = One \<and> broadcasts w' = 0)"
proof -
  let ?w = "watcher_on (file_of []) One"
  have h: "os_ReadFile (disk ?w) = Inr []"
    by (simp add: os_ReadFile_def level_defs)
  have m: "MarshalIndent level_codec (Get ?w) = Inr ''1''"
    "os_WriteFile ''1'' (disk ?w) = (None, (disk ?w)\<lparr>content := Some ''1''\<rparr>)"
    by (simp_all add: MarshalIndent_def os_WriteFile_def Get_def level_defs)
  obtain w' where run: "load level_codec ?w = Inr w'"
    "errChan w' = Some \<lparr>cap = 4, buf = []\<rparr>" "content (disk w') = Some ''1''"
    by (simp add: go_defs level_defs)
  have w: "Get ?w = One" by (simp add: Get_def level_defs)
  let ?n = "watcher_on (file_on_full_device []) One"
  have hn: "os_ReadFile (disk ?n) = Inr []"
    by (simp add: os_ReadFile_def level_defs)
  have mn: "os_WriteFile ''1'' (disk ?n)
      = (Some (IOError ''no space left on device''), (disk ?n)\<lparr>content := Some []\<rparr>)"
    by (simp add: os_WriteFile_def level_defs)
  obtain n' where runn: "load level_codec ?n = Inr n'"
    "errChan n' = Some \<lparr>cap = 4, buf = [IOError ''no space left on device'']\<rparr>"
    by (simp add: go_defs level_defs)
  have wn: "Get ?n = One" "broadcasts ?n = 0" by (simp_all add: Get_def level_defs)
  from load_empty [OF hn, of level_codec] runn wn
  have cn: "\<exists>w'. load level_codec ?n = Inr w'
        \<and> errChan w' = Some \<lparr>cap = 4, buf = [IOError ''no space left on device'']\<rparr>
        \<and> Get w' = One \<and> broadcasts w' = 0"
    by auto
  from load_empty [OF h, of level_codec] h m w run
  have c: "\<exists>w'. load level_codec ?w = Inr w'
        \<and> content (disk w') = Some ''1''
        \<and> errChan w' = Some \<lparr>cap = 4, buf = []\<rparr> \<and> Get w' = One"
    by auto
  from h m hn mn c cn show ?thesis by simp
qed

text \<open>
  C6 as stated fails on an empty file that may not be written: \<open>writeFile\<close> fails and its
  error reaches the channel.
\<close>

theorem load_empty_counterexample:
  "os_ReadFile (disk (watcher_on read_only_empty_file One)) = Inr []
   \<and> errChan (watcher_on read_only_empty_file One) = Some \<lparr>cap = 4, buf = []\<rparr>
   \<and> (\<exists>w'. load level_codec (watcher_on read_only_empty_file One) = Inr w'
        \<and> errChan w' = Some \<lparr>cap = 4, buf = [IOError ''open for writing failed'']\<rparr>)"
  by (simp add: go_defs level_defs)

subsection \<open>Save\<close>

lemma Save_written:
  assumes "MarshalIndent j v = Inr data" and "os_WriteFile data (disk w) = (None, f)"
  shows "Save j v w = (case load j (w\<lparr>disk := f\<rparr>) of Inl p \<Rightarrow> Inl p | Inr w' \<Rightarrow> Inr (None, w'))"
  using assms by (simp add: Save_def)

lemma load_written:
  assumes "os_WriteFile data (disk w) = (None, f)"
  shows "(\<forall>w'. load j (w\<lparr>disk := f\<rparr>) = Inr w' \<longrightarrow>
            loads w' = Suc (loads w)
            \<and> Get w' = (case Unmarshal j data of
                          Inl e \<Rightarrow> Get w
                        | Inr n \<Rightarrow> if readable (disk w) \<and> \<not> equal_json j (Get w) n
                                   then n else Get w))
       \<and> (\<forall>p. load j (w\<lparr>disk := f\<rparr>) = Inl p \<longrightarrow>
            (\<exists>n. readable (disk w) \<and> Unmarshal j data = Inr n \<and> \<not> equal_json j (Get w) n
               \<and> (dyn_type j n = None \<or> dyn_type j n \<noteq> dyn_type j (Get w))))"
proof -
  define w1 where "w1 = w\<lparr>disk := f\<rparr>"
  have f: "f = (disk w)\<lparr>content := Some data\<rparr>" by (rule WriteFile_done [OF assms])
  have base: "val w1 = val w" "loads w1 = loads w" by (simp_all add: w1_def)
  show ?thesis
  proof (cases "readable (disk w)")
    case False
    then have "os_ReadFile (disk w1) = Inl (IOError ''permission denied'')"
      by (simp add: os_ReadFile_def w1_def f)
    then have "load j w1 = Inr (snd (writeFile j (Get w1) (sendError (Some (IOError ''permission denied''))
        (w1\<lparr>loads := Suc (loads w1)\<rparr>))))"
      by (simp add: load_def Let_def Get_def sendError_fields)
    with False base show ?thesis
      by (auto simp: w1_def [symmetric] Get_def writeFile_fields sendError_fields
          split: sum.splits)
  next
    case True
    then have rd: "os_ReadFile (disk w1) = Inr data"
      by (simp add: os_ReadFile_def w1_def f)
    show ?thesis
    proof (cases "Unmarshal j data")
      case (Inr n)
      note ld = load_after_decode [OF rd Inr]
      show ?thesis
      proof (cases "equal_json j (val w) n")
        case eq: True
        with ld base True Inr show ?thesis
          by (simp add: w1_def [symmetric] Get_def)
      next
        case ne: False
        show ?thesis
        proof (cases "atomic_Store j n (w1\<lparr>loads := Suc (loads w1)\<rparr>)")
          case (Inl p)
          from atomic_Store_Inl [OF Inl] base
          have "dyn_type j n = None \<or> dyn_type j n \<noteq> dyn_type j (val w)" by simp
          with ld ne base True Inr Inl show ?thesis
            by (simp add: w1_def [symmetric] Get_def)
        next
          case (Inr w2)
          from atomic_Store_Inr [OF Inr] have "w2 = w1\<lparr>loads := Suc (loads w1), val := n\<rparr>"
            by simp
          with ld ne base True \<open>Unmarshal j data = Inr n\<close> Inr show ?thesis
            by (simp add: w1_def [symmetric] Get_def Broadcast_def)
        qed
      qed
    next
      case (Inl e)
      have "load j w1 = Inr (sendError (Some e) (w1\<lparr>loads := Suc (loads w1)\<rparr>))
          \<or> load j w1 = Inr (snd (writeFile j (Get w1) (w1\<lparr>loads := Suc (loads w1)\<rparr>)))"
        using rd Inl by (simp add: load_def Let_def Get_def)
      with Inl base show ?thesis
        by (auto simp: w1_def [symmetric] Get_def writeFile_fields sendError_fields)
    qed
  qed
qed

text \<open>
  C5. \<open>Save\<close> returns the serialization error and offers it to the error channel when
  \<open>MarshalIndent\<close> fails; the file, the stored value and the broadcast count are unchanged
  and \<open>load\<close> is not called. It returns the write error, offered to the channel as well,
  when the write fails, again without a call of \<open>load\<close>. When both succeed the file holds
  the encoding and \<open>Save\<close> calls \<open>load\<close>: it returns no error when \<open>load\<close> returns, with
  the state \<open>load\<close> left, so that the value held afterwards is the old one or the one
  decoded from the file, never the argument as such; \<open>load\<close> fails to return only by the
  panic of the atomic store on the decoded value.
\<close>

theorem Save_errors_and_reload:
  "(\<forall>e. MarshalIndent j v = Inl e \<longrightarrow>
      (\<exists>w'. Save j v w = Inr (Some e, w')
         \<and> errChan w' = offered e (errChan w)
         \<and> disk w' = disk w \<and> Get w' = Get w
         \<and> broadcasts w' = broadcasts w \<and> loads w' = loads w))
   \<and> (\<forall>data e f. MarshalIndent j v = Inr data \<and> os_WriteFile data (disk w) = (Some e, f) \<longrightarrow>
      (\<exists>w'. Save j v w = Inr (Some e, w')
         \<and> errChan w' = offered e (errChan w)
         \<and> Get w' = Get w \<and> broadcasts w' = broadcasts w \<and> loads w' = loads w))
   \<and> (\<forall>data f. MarshalIndent j v = Inr data \<and> os_WriteFile data (disk w) = (None, f) \<longrightarrow>
      content f = Some data
      \<and> Save j v w
          = (case load j (w\<lparr>disk := f\<rparr>) of Inl p \<Rightarrow> Inl p | Inr w' \<Rightarrow> Inr (None, w'))
      \<and> (\<forall>w'. load j (w\<lparr>disk := f\<rparr>) = Inr w' \<longrightarrow>
            loads w' = Suc (loads w)
            \<and> Get w' = (case Unmarshal j data of
                          Inl e \<Rightarrow> Get w
                        | Inr n \<Rightarrow> if readable (disk w) \<and> \<not> equal_json j (Get w) n
                                   then n else Get w))
      \<and> (\<forall>p. load j (w\<lparr>disk := f\<rparr>) = Inl p \<longrightarrow>
            (\<exists>n. readable (disk w) \<and> Unmarshal j data = Inr n \<and> \<not> equal_json j (Get w) n
               \<and> (dyn_type j n = None \<or> dyn_type j n \<noteq> dyn_type j (Get w)))))"
proof -
  have m_fails: "\<forall>e. MarshalIndent j v = Inl e \<longrightarrow>
      (\<exists>w'. Save j v w = Inr (Some e, w')
         \<and> errChan w' = offered e (errChan w)
         \<and> disk w' = disk w \<and> Get w' = Get w
         \<and> broadcasts w' = broadcasts w \<and> loads w' = loads w)"
    by (simp add: Save_def sendError_def try_send_def Get_def split: option.splits)
  have w_fails: "\<forall>data e f. MarshalIndent j v = Inr data
        \<and> os_WriteFile data (disk w) = (Some e, f) \<longrightarrow>
      (\<exists>w'. Save j v w = Inr (Some e, w')
         \<and> errChan w' = offered e (errChan w)
         \<and> Get w' = Get w \<and> broadcasts w' = broadcasts w \<and> loads w' = loads w)"
    by (simp add: Save_def sendError_def try_send_def Get_def split: option.splits)
  have reloads: "\<forall>data f. MarshalIndent j v = Inr data
        \<and> os_WriteFile data (disk w) = (None, f) \<longrightarrow>
      content f = Some data
      \<and> Save j v w
          = (case load j (w\<lparr>disk := f\<rparr>) of Inl p \<Rightarrow> Inl p | Inr w' \<Rightarrow> Inr (None, w'))
      \<and> (\<forall>w'. load j (w\<lparr>disk := f\<rparr>) = Inr w' \<longrightarrow>
            loads w' = Suc (loads w)
            \<and> Get w' = (case Unmarshal j data of
                          Inl e \<Rightarrow> Get w
                        | Inr n \<Rightarrow> if readable (disk w) \<and> \<not> equal_json j (Get w) n
                                   then n else Get w))
      \<and> (\<forall>p. load j (w\<lparr>disk := f\<rparr>) = Inl p \<longrightarrow>
            (\<exists>n. readable (disk w) \<and> Unmarshal j data = Inr n \<and> \<not> equal_json j (Get w) n
               \<and> (dyn_type j n = None \<or> dyn_type j n \<noteq> dyn_type j (Get w))))"
  proof (intro allI impI)
    fix data f
    assume h: "MarshalIndent j v = Inr data \<and> os_WriteFile data (disk w) = (None, f)"
    then have wf: "os_WriteFile data (disk w) = (None, f)" and mi: "MarshalIndent j v = Inr data"
      by simp_all
    have c: "content f = Some data" using WriteFile_done [OF wf] by simp
    from c Save_written [OF mi wf] load_written [OF wf, of j]
    show "content f = Some data
      \<and> Save j v w
          = (case load j (w\<lparr>disk := f\<rparr>) of Inl p \<Rightarrow> Inl p | Inr w' \<Rightarrow> Inr (None, w'))
      \<and> (\<forall>w'. load j (w\<lparr>disk := f\<rparr>) = Inr w' \<longrightarrow>
            loads w' = Suc (loads w)
            \<and> Get w' = (case Unmarshal j data of
                          Inl e \<Rightarrow> Get w
                        | Inr n \<Rightarrow> if readable (disk w) \<and> \<not> equal_json j (Get w) n
                                   then n else Get w))
      \<and> (\<forall>p. load j (w\<lparr>disk := f\<rparr>) = Inl p \<longrightarrow>
            (\<exists>n. readable (disk w) \<and> Unmarshal j data = Inr n \<and> \<not> equal_json j (Get w) n
               \<and> (dyn_type j n = None \<or> dyn_type j n \<noteq> dyn_type j (Get w))))"
      by blast
  qed
  from m_fails w_fails reloads show ?thesis by blast
qed

text \<open>
  C5 on a value without encoding, on a read-only file and on a writable file: the error
  returned is the last element of the channel in the first two, and \<open>Get\<close> gives the value
  decoded from the file in the third.
\<close>

theorem Save_errors_and_reload_witness:
  "MarshalIndent level_codec Neg = Inl (SerializationError ''unsupported value'')
   \<and> (\<exists>w'. Save level_codec Neg (watcher_on (file_of ''1'') One)
              = Inr (Some (SerializationError ''unsupported value''), w')
        \<and> errChan w' = Some \<lparr>cap = 4, buf = [SerializationError ''unsupported value'']\<rparr>
        \<and> disk w' = file_of ''1'' \<and> Get w' = One)
   \<and> MarshalIndent level_codec Two = Inr ''2''
   \<and> fst (os_WriteFile ''2'' (disk (watcher_on read_only_empty_file One)))
       = Some (IOError ''open for writing failed'')
   \<and> (\<exists>w'. Save level_codec Two (watcher_on read_only_empty_file One)
              = Inr (Some (IOError ''open for writing failed''), w')
        \<and> errChan w' = Some \<lparr>cap = 4, buf = [IOError ''open for writing failed'']\<rparr>
        \<and> Get w' = One)
   \<and> fst (os_WriteFile ''2'' (disk (watcher_on (file_of ''1'') One))) = None
   \<and> (\<exists>w'. Save level_codec Two (watcher_on (file_of ''1'') One) = Inr (None, w')
        \<and> Get w' = Two \<and> content (disk w') = Some ''2'')"
proof -
  let ?w = "watcher_on (file_of ''1'') One"
  let ?r = "watcher_on read_only_empty_file One"
  have h1: "MarshalIndent level_codec Neg = Inl (SerializationError ''unsupported value'')"
    by (simp add: MarshalIndent_def level_defs)
  have h2: "MarshalIndent level_codec Two = Inr ''2''
      \<and> os_WriteFile ''2'' (disk ?r) = (Some (IOError ''open for writing failed''), disk ?r)"
    by (simp add: MarshalIndent_def os_WriteFile_def level_defs)
  have h3: "MarshalIndent level_codec Two = Inr ''2''
      \<and> os_WriteFile ''2'' (disk ?w) = (None, file_of ''2'')"
    by (simp add: MarshalIndent_def os_WriteFile_def level_defs)
  have st: "disk ?w = file_of ''1''" "Get ?w = One" "Get ?r = One"
    by (simp_all add: Get_def level_defs)
  obtain u1 where run1:
    "Save level_codec Neg ?w = Inr (Some (SerializationError ''unsupported value''), u1)"
    "errChan u1 = Some \<lparr>cap = 4, buf = [SerializationError ''unsupported value'']\<rparr>"
    by (simp add: go_defs level_defs)
  obtain u2 where run2:
    "Save level_codec Two ?r = Inr (Some (IOError ''open for writing failed''), u2)"
    "errChan u2 = Some \<lparr>cap = 4, buf = [IOError ''open for writing failed'']\<rparr>"
    by (simp add: go_defs level_defs)
  from Save_errors_and_reload [of level_codec Neg ?w] h1
  have c1: "\<exists>w'. Save level_codec Neg ?w = Inr (Some (SerializationError ''unsupported value''), w')
      \<and> errChan w' = offered (SerializationError ''unsupported value'') (errChan ?w)
      \<and> disk w' = disk ?w \<and> Get w' = Get ?w"
    by blast
  from Save_errors_and_reload [of level_codec Two ?r] h2
  have c2: "\<exists>w'. Save level_codec Two ?r = Inr (Some (IOError ''open for writing failed''), w')
      \<and> errChan w' = offered (IOError ''open for writing failed'') (errChan ?r)
      \<and> Get w' = Get ?r"
    by blast
  obtain w3 where w3: "load level_codec (?w\<lparr>disk := file_of ''2''\<rparr>) = Inr w3"
    "content (disk w3) = Some ''2''"
    by (simp add: go_defs level_defs)
  from Save_errors_and_reload [of level_codec Two ?w] h3
  have c3: "Save level_codec Two ?w
        = (case load level_codec (?w\<lparr>disk := file_of ''2''\<rparr>) of
             Inl p \<Rightarrow> Inl p | Inr w' \<Rightarrow> Inr (None, w'))
      \<and> (\<forall>w'. load level_codec (?w\<lparr>disk := file_of ''2''\<rparr>) = Inr w' \<longrightarrow>
            Get w' = (case Unmarshal level_codec ''2'' of
                        Inl e \<Rightarrow> Get ?w
                      | Inr n \<Rightarrow> if readable (disk ?w) \<and> \<not> equal_json level_codec (Get ?w) n
                                 then n else Get ?w))"
    by blast
  have v: "(case Unmarshal level_codec ''2'' of
               Inl e \<Rightarrow> Get ?w
             | Inr n \<Rightarrow> if readable (disk ?w) \<and> \<not> equal_json level_codec (Get ?w) n
                        then n else Get ?w) = Two"
    by (simp add: Unmarshal_def equal_json_def Marshal_def discard_err_def Get_def level_defs)
  from c3 w3 v have c3': "Save level_codec Two ?w = Inr (None, w3) \<and> Get w3 = Two
      \<and> content (disk w3) = Some ''2''"
    by simp
  from h1 h2 h3 c1 c2 c3' st run1 run2 show ?thesis by auto
qed

text \<open>
  C2, as amended. Let \<open>v\<close> be a value whose indented encoding deserializes to a value
  with the same encoding as \<open>v\<close>. If \<open>Save v\<close> returns no error and the file can be read
  back, then \<open>Get\<close> returns a value equal to \<open>v\<close> under \<open>equal\<close>, and reading the file gives
  the encoding of \<open>v\<close>, which deserializes to a value equal to \<open>v\<close>.
\<close>

theorem Save_then_Get:
  assumes valid: "MarshalIndent j v = Inr data" "Unmarshal j data = Inr v'" "equal_json j v' v"
    and ok: "Save j v w = Inr (None, w')"
    and rd: "readable (disk w)"
  shows "equal_json j (Get w') v
     \<and> os_ReadFile (disk w') = Inr data
     \<and> (case os_ReadFile (disk w') of
          Inl e \<Rightarrow> False
        | Inr d \<Rightarrow> (case Unmarshal j d of Inl e \<Rightarrow> False | Inr n \<Rightarrow> equal_json j n v))"
proof -
  obtain r f where wf: "os_WriteFile data (disk w) = (r, f)"
    by (cases "os_WriteFile data (disk w)")
  have r: "r = None"
    using ok valid(1) wf by (cases r) (auto simp: Save_def split: sum.splits)
  define w1 where "w1 = w\<lparr>disk := f\<rparr>"
  have f: "f = (disk w)\<lparr>content := Some data\<rparr>"
    using wf r WriteFile_done by blast
  have sv: "load j w1 = Inr w'"
    using ok valid(1) wf r by (auto simp: Save_def w1_def split: sum.splits)
  have r1: "os_ReadFile (disk w1) = Inr data"
    using rd by (simp add: os_ReadFile_def w1_def f)
  note ld = load_after_decode [OF r1 valid(2)]
  have g: "equal_json j (Get w') v \<and> disk w' = disk w1"
  proof (cases "equal_json j (val w1) v'")
    case True
    with ld sv have "w' = w1\<lparr>loads := Suc (loads w1)\<rparr>" by simp
    with True valid(3) show ?thesis by (auto simp: Get_def intro: equal_json_trans)
  next
    case False
    with ld sv obtain w2 where "atomic_Store j v' (w1\<lparr>loads := Suc (loads w1)\<rparr>) = Inr w2"
      and "w' = Broadcast w2"
      by (auto split: sum.splits)
    with atomic_Store_Inr [of j v' "w1\<lparr>loads := Suc (loads w1)\<rparr>" w2] valid(3)
    show ?thesis by (simp add: Get_def Broadcast_def)
  qed
  with r1 valid(2,3) show ?thesis by simp
qed

text \<open>C2 on \<open>Save Two\<close> where the file was missing.\<close>

theorem Save_then_Get_witness:
  "MarshalIndent level_codec Two = Inr ''2''
   \<and> Unmarshal level_codec ''2'' = Inr Two \<and> equal_json level_codec Two Two
   \<and> readable (disk (watcher_on missing_file One))
   \<and> (\<exists>w'. Save level_codec Two (watcher_on missing_file One) = Inr (None, w')
        \<and> equal_json level_codec (Get w') Two \<and> Get w' = Two
        \<and> os_ReadFile (disk w') = Inr ''2'')"
proof -
  obtain w' where ok: "Save level_codec Two (watcher_on missing_file One) = Inr (None, w')"
    and g: "Get w' = Two"
    by (simp add: go_defs level_defs)
  have h: "MarshalIndent level_codec Two = Inr ''2''"
    "Unmarshal level_codec ''2'' = Inr Two" "equal_json level_codec Two Two"
    by (simp_all add: go_defs level_defs)
  have rd: "readable (disk (watcher_on missing_file One))"
    by (simp add: level_defs)
  from Save_then_Get [OF h ok rd] h ok rd g show ?thesis by auto
qed

text \<open>
  C2 as stated fails on a file that may be written and not read: \<open>Save Two\<close> writes the
  file and returns no error, the \<open>load\<close> inside it cannot read the file back and writes the
  old value over it, so that \<open>Get\<close> and the file both hold \<open>One\<close>.
\<close>

theorem Save_then_Get_counterexample:
  "MarshalIndent level_codec Two = Inr ''2'' \<and> Unmarshal level_codec ''2'' = Inr Two
   \<and> \<not> equal_json level_codec One Two
   \<and> (\<exists>w'. Save level_codec Two (watcher_on write_only_file One) = Inr (None, w')
        \<and> Get w' = One \<and> content (disk w') = Some ''1'')"
  by (simp add: go_defs level_defs)

subsection \<open>Equality by encoding\<close>

text \<open>
  C10, as amended. \<open>equal\<close> discards serialization errors: \<open>equal a a\<close> holds for every
  \<open>a\<close>, and two values whose serialization both fail are equal. So \<open>load\<close> does not store or
  broadcast a deserialized value that cannot be serialized when the current value has no
  encoding either. When the current value has a non-empty encoding, such a value differs
  from it under \<open>equal\<close> and \<open>load\<close> goes on to store it: it is stored and broadcast unless
  the atomic store panics, which it does only on a nil or a changed dynamic type.
\<close>

theorem equal_json_discards_errors:
  "equal_json j a a
   \<and> (\<forall>ea eb. Marshal j a = Inl ea \<and> Marshal j b = Inl eb \<longrightarrow> equal_json j a b)
   \<and> (\<forall>data n e. os_ReadFile (disk w) = Inr data \<and> Unmarshal j data = Inr n
         \<and> Marshal j n = Inl e \<and> discard_err (Marshal j (Get w)) = []
       \<longrightarrow> (\<exists>w'. load j w = Inr w' \<and> Get w' = Get w \<and> broadcasts w' = broadcasts w))
   \<and> (\<forall>data n e b. os_ReadFile (disk w) = Inr data \<and> Unmarshal j data = Inr n
         \<and> Marshal j n = Inl e \<and> Marshal j (Get w) = Inr b \<and> b \<noteq> []
       \<longrightarrow> \<not> equal_json j (Get w) n
          \<and> (case load j w of
               Inr w' \<Rightarrow> Get w' = n \<and> broadcasts w' = Suc (broadcasts w)
             | Inl p \<Rightarrow> dyn_type j n = None \<or> dyn_type j n \<noteq> dyn_type j (Get w))
          \<and> (dyn_type j n \<noteq> None \<and> dyn_type j n = dyn_type j (Get w)
              \<longrightarrow> (\<exists>w'. load j w = Inr w' \<and> Get w' = n
                      \<and> broadcasts w' = Suc (broadcasts w))))"
proof -
  have refl: "equal_json j a a" by (simp add: equal_json_def)
  have both: "\<forall>ea eb. Marshal j a = Inl ea \<and> Marshal j b = Inl eb \<longrightarrow> equal_json j a b"
    by (simp add: equal_json_def discard_err_def)
  have kept: "\<forall>data n e. os_ReadFile (disk w) = Inr data \<and> Unmarshal j data = Inr n
         \<and> Marshal j n = Inl e \<and> discard_err (Marshal j (Get w)) = []
       \<longrightarrow> (\<exists>w'. load j w = Inr w' \<and> Get w' = Get w \<and> broadcasts w' = broadcasts w)"
  proof (intro allI impI)
    fix data n e
    assume h: "os_ReadFile (disk w) = Inr data \<and> Unmarshal j data = Inr n
         \<and> Marshal j n = Inl e \<and> discard_err (Marshal j (Get w)) = []"
    then have eq: "equal_json j (val w) n"
      by (simp add: equal_json_def discard_err_def Get_def)
    from h have "os_ReadFile (disk w) = Inr data" "Unmarshal j data = Inr n" by simp_all
    from load_after_decode [OF this] eq
    show "\<exists>w'. load j w = Inr w' \<and> Get w' = Get w \<and> broadcasts w' = broadcasts w"
      by (simp add: Get_def)
  qed
  have stored: "\<forall>data n e b. os_ReadFile (disk w) = Inr data \<and> Unmarshal j data = Inr n
         \<and> Marshal j n = Inl e \<and> Marshal j (Get w) = Inr b \<and> b \<noteq> []
       \<longrightarrow> \<not> equal_json j (Get w) n
          \<and> (case load j w of
               Inr w' \<Rightarrow> Get w' = n \<and> broadcasts w' = Suc (broadcasts w)
             | Inl p \<Rightarrow> dyn_type j n = None \<or> dyn_type j n \<noteq> dyn_type j (Get w))
          \<and> (dyn_type j n \<noteq> None \<and> dyn_type j n = dyn_type j (Get w)
              \<longrightarrow> (\<exists>w'. load j w = Inr w' \<and> Get w' = n
                      \<and> broadcasts w' = Suc (broadcasts w)))"
  proof (intro allI impI)
    fix data n e b
    assume h: "os_ReadFile (disk w) = Inr data \<and> Unmarshal j data = Inr n
         \<and> Marshal j n = Inl e \<and> Marshal j (Get w) = Inr b \<and> b \<noteq> []"
    then have ne: "\<not> equal_json j (val w) n"
      by (auto simp: equal_json_def discard_err_def Get_def)
    from h have "os_ReadFile (disk w) = Inr data" "Unmarshal j data = Inr n" by simp_all
    note ld = load_after_decode [OF this]
    have a: "(case load j w of
               Inr w' \<Rightarrow> Get w' = n \<and> broadcasts w' = Suc (broadcasts w)
             | Inl p \<Rightarrow> dyn_type j n = None \<or> dyn_type j n \<noteq> dyn_type j (Get w))"
    proof (cases "atomic_Store j n (w\<lparr>loads := Suc (loads w)\<rparr>)")
      case (Inl p)
      from atomic_Store_Inl [OF Inl] ld ne Inl show ?thesis by (simp add: Get_def)
    next
      case (Inr w2)
      from atomic_Store_Inr [OF Inr] ld ne Inr show ?thesis
        by (simp add: Get_def Broadcast_def)
    qed
    have b: "dyn_type j n \<noteq> None \<and> dyn_type j n = dyn_type j (Get w)
              \<longrightarrow> (\<exists>w'. load j w = Inr w' \<and> Get w' = n
                      \<and> broadcasts w' = Suc (broadcasts w))"
    proof (intro impI)
      assume a: "dyn_type j n \<noteq> None \<and> dyn_type j n = dyn_type j (Get w)"
      from a have nn: "dyn_type j n \<noteq> None" by (rule conjunct1)
      from a have eq: "dyn_type j n = dyn_type j (Get w)" by (rule conjunct2)
      from nn obtain t where t1: "dyn_type j n = Some t" by auto
      from eq [symmetric] t1 have "dyn_type j (Get w) = Some t" by (rule trans)
      then have "dyn_type j (val w) = Some t" by (simp only: Get_def)
      then have t2: "dyn_type j (val (w\<lparr>loads := Suc (loads w)\<rparr>)) = Some t"
        by simp
      from atomic_Store_same_type [OF t1 t2] ld ne
      show "\<exists>w'. load j w = Inr w' \<and> Get w' = n \<and> broadcasts w' = Suc (broadcasts w)"
        by (simp add: Get_def Broadcast_def)
    qed
    from ne a b
    show "\<not> equal_json j (Get w) n
          \<and> (case load j w of
               Inr w' \<Rightarrow> Get w' = n \<and> broadcasts w' = Suc (broadcasts w)
             | Inl p \<Rightarrow> dyn_type j n = None \<or> dyn_type j n \<noteq> dyn_type j (Get w))
          \<and> (dyn_type j n \<noteq> None \<and> dyn_type j n = dyn_type j (Get w)
              \<longrightarrow> (\<exists>w'. load j w = Inr w' \<and> Get w' = n
                      \<and> broadcasts w' = Suc (broadcasts w)))"
      by (simp add: Get_def)
  qed
  from refl both kept stored show ?thesis by blast
qed

text \<open>C10 where neither the current nor the new value has an encoding: nothing is stored.\<close>

theorem equal_json_discards_errors_witness:
  "os_ReadFile (disk (watcher_on (file_of ''-1'') Neg)) = Inr ''-1''
   \<and> Unmarshal level_codec ''-1'' = Inr Neg
   \<and> Marshal level_codec Neg = Inl (SerializationError ''unsupported value'')
   \<and> discard_err (Marshal level_codec (Get (watcher_on (file_of ''-1'') Neg))) = []
   \<and> equal_json level_codec Neg Neg
   \<and> (\<exists>w'. load level_codec (watcher_on (file_of ''-1'') Neg) = Inr w'
        \<and> Get w' = Neg \<and> broadcasts w' = 0)"
proof -
  let ?w = "watcher_on (file_of ''-1'') Neg"
  have h: "os_ReadFile (disk ?w) = Inr ''-1'' \<and> Unmarshal level_codec ''-1'' = Inr Neg
      \<and> Marshal level_codec Neg = Inl (SerializationError ''unsupported value'')
      \<and> discard_err (Marshal level_codec (Get ?w)) = []"
    by (simp add: os_ReadFile_def Unmarshal_def Marshal_def discard_err_def Get_def level_defs)
  have w: "Get ?w = Neg" "broadcasts ?w = 0" by (simp_all add: Get_def level_defs)
  from equal_json_discards_errors [of level_codec Neg Neg ?w] h
  have "equal_json level_codec Neg Neg
      \<and> (\<exists>w'. load level_codec ?w = Inr w' \<and> Get w' = Get ?w \<and> broadcasts w' = broadcasts ?w)"
    by blast
  with h w show ?thesis by (auto simp: discard_err_def)
qed

text \<open>
  C10 as stated fails where the current value has an encoding: the file decodes to \<open>Neg\<close>,
  which cannot be serialized, and \<open>load\<close> stores it and broadcasts.
\<close>

theorem equal_json_discards_errors_counterexample:
  "os_ReadFile (disk (watcher_on (file_of ''-1'') One)) = Inr ''-1''
   \<and> Unmarshal level_codec ''-1'' = Inr Neg
   \<and> Marshal level_codec Neg = Inl (SerializationError ''unsupported value'')
   \<and> (\<exists>w'. load level_codec (watcher_on (file_of ''-1'') One) = Inr w'
        \<and> Get w' = Neg
        \<and> broadcasts w' = Suc (broadcasts (watcher_on (file_of ''-1'') One)))"
  by (simp add: go_defs level_defs)

subsection \<open>The monitor\<close>

lemma op_includes_Write: "(x AND fsnotify_Write = fsnotify_Write) = bit x 1"
  unfolding fsnotify_Write_def
proof
  assume "x AND 2 = 2"
  then have "bit (x AND 2) 1 = bit (2::32 word) 1" by simp
  then show "bit x 1" by (simp add: bit_and_iff bit_2_iff)
next
  assume h: "bit x 1"
  show "x AND 2 = 2"
    by (rule bit_word_eqI) (use h in \<open>auto simp: bit_and_iff bit_2_iff\<close>)
qed

lemma op_includes_Create: "(x AND fsnotify_Create = fsnotify_Create) = bit x 0"
  unfolding fsnotify_Create_def
proof
  assume "x AND 1 = 1"
  then have "bit (x AND 1) 0 = bit (1::32 word) 0" by simp
  then show "bit x 0" by (simp add: bit_and_iff)
next
  assume h: "bit x 0"
  show "x AND 1 = 1"
    by (rule bit_word_eqI) (use h in \<open>auto simp: bit_and_iff bit_1_iff\<close>)
qed

lemma load_changes: "load j w \<noteq> Inr w"
proof
  assume "load j w = Inr w"
  from load_fields(1) [OF this] show False by simp
qed

lemma watchFS_errors:
  "\<exists>w'. watchFS j (map (\<lambda>e. SelErrors (Recv (Some e))) es) w = Inr w'
      \<and> monitor w' = monitor w \<and> loads w' = loads w
      \<and> (\<forall>c. errChan w = Some c \<and> length (buf c) + length es \<le> cap c
            \<longrightarrow> errChan w' = Some (c\<lparr>buf := buf c @ es\<rparr>))"
proof (induction es arbitrary: w)
  case Nil
  show ?case by simp
next
  case (Cons e es)
  from Cons.IH [of "sendError (Some e) w"]
  obtain w' where w': "watchFS j (map (\<lambda>e. SelErrors (Recv (Some e))) es) (sendError (Some e) w)
        = Inr w'"
    "monitor w' = monitor w" "loads w' = loads w"
    and room: "\<forall>c. errChan (sendError (Some e) w) = Some c \<and> length (buf c) + length es \<le> cap c
            \<longrightarrow> errChan w' = Some (c\<lparr>buf := buf c @ es\<rparr>)"
    by (auto simp: sendError_fields)
  have "\<forall>c. errChan w = Some c \<and> length (buf c) + length (e # es) \<le> cap c
            \<longrightarrow> errChan w' = Some (c\<lparr>buf := buf c @ e # es\<rparr>)"
  proof (intro allI impI)
    fix c assume c: "errChan w = Some c \<and> length (buf c) + length (e # es) \<le> cap c"
    then have "errChan (sendError (Some e) w) = Some (c\<lparr>buf := buf c @ [e]\<rparr>)"
      by (simp add: sendError_offered)
    with room c show "errChan w' = Some (c\<lparr>buf := buf c @ e # es\<rparr>)" by simp
  qed
  with w' show ?case by simp
qed

lemma options_filename:
  "filename (foldl (\<lambda>w opt. opt w) w (map WithErrorChan chs)) = filename w"
  by (induction chs arbitrary: w) (simp_all add: WithErrorChan_def)

lemma NewWatcher_filename:
  "NewWatcher j os f d fname (map WithErrorChan chs) = Inr w \<Longrightarrow>
   filename w = filepath_Abs os fname"
  by (auto simp: NewWatcher_def Let_def sendError_fields options_filename
      dest!: load_fields(2) split: option.splits sum.splits)

text \<open>
  C7. For an event received by the loop of \<open>watchFS\<close>, \<open>load\<close> is called exactly when the
  event's name is the watcher's file name, which \<open>NewWatcher\<close> set to the absolute path,
  and its operation has the \<open>Write\<close> bit (bit 1) or the \<open>Create\<close> bit (bit 0); any other
  event leaves the watcher as it is, which a call of \<open>load\<close> never does. An error received
  from the error stream is offered to the error channel and the loop goes on: after a run
  of errors the loop is still running, \<open>load\<close> has not been called, and a channel with
  room holds the errors in order. The loop returns when either channel is closed.
\<close>

theorem watchFS_filters_events:
  "watchFS j (SelEvents (Recv ev) # rest) w
     = (if ev_Name ev = filename w \<and> (bit (ev_Op ev) 1 \<or> bit (ev_Op ev) 0)
        then (case load j w of Inl p \<Rightarrow> Inl p | Inr w' \<Rightarrow> watchFS j rest w')
        else watchFS j rest w)
   \<and> watchFS j [SelEvents (Recv ev)] w
     = (if ev_Name ev = filename w \<and> (bit (ev_Op ev) 1 \<or> bit (ev_Op ev) 0)
        then load j w else Inr w)
   \<and> (watchFS j [SelEvents (Recv ev)] w = Inr w)
     = (\<not> (ev_Name ev = filename w \<and> (bit (ev_Op ev) 1 \<or> bit (ev_Op ev) 0)))
   \<and> (\<forall>w'. load j w = Inr w' \<longrightarrow> loads w' = Suc (loads w))
   \<and> (\<forall>w0. NewWatcher j os f d fname (map WithErrorChan chs) = Inr w0
         \<longrightarrow> filename w0 = filepath_Abs os fname)
   \<and> watchFS j (SelErrors (Recv (Some e)) # rest) w
     = watchFS j rest (w\<lparr>errChan := offered e (errChan w)\<rparr>)
   \<and> watchFS j (SelErrors (Recv None) # rest) w = watchFS j rest w
   \<and> (\<exists>w'. watchFS j (map (\<lambda>e. SelErrors (Recv (Some e))) es) w = Inr w'
         \<and> monitor w' = monitor w \<and> loads w' = loads w
         \<and> (\<forall>c. errChan w = Some c \<and> length (buf c) + length es \<le> cap c
               \<longrightarrow> errChan w' = Some (c\<lparr>buf := buf c @ es\<rparr>)))
   \<and> watchFS j (SelErrors Closed # rest) w = Inr (w\<lparr>monitor := Returned\<rparr>)
   \<and> watchFS j (SelEvents Closed # rest) w = Inr (w\<lparr>monitor := Returned\<rparr>)"
proof -
  have step: "watchFS j (SelEvents (Recv ev) # rest) w
     = (if ev_Name ev = filename w \<and> (bit (ev_Op ev) 1 \<or> bit (ev_Op ev) 0)
        then (case load j w of Inl p \<Rightarrow> Inl p | Inr w' \<Rightarrow> watchFS j rest w')
        else watchFS j rest w)"
    by (simp add: relevant_def op_includes_Write op_includes_Create)
  have one: "watchFS j [SelEvents (Recv ev)] w
     = (if ev_Name ev = filename w \<and> (bit (ev_Op ev) 1 \<or> bit (ev_Op ev) 0)
        then load j w else Inr w)"
    by (cases "load j w") (auto simp: relevant_def op_includes_Write op_includes_Create)
  have iff: "(watchFS j [SelEvents (Recv ev)] w = Inr w)
     = (\<not> (ev_Name ev = filename w \<and> (bit (ev_Op ev) 1 \<or> bit (ev_Op ev) 0)))"
    unfolding one using load_changes [of j w] by simp
  have counted: "\<forall>w'. load j w = Inr w' \<longrightarrow> loads w' = Suc (loads w)"
    by (simp add: load_fields)
  have name: "\<forall>w0. NewWatcher j os f d fname (map WithErrorChan chs) = Inr w0
         \<longrightarrow> filename w0 = filepath_Abs os fname"
    by (simp add: NewWatcher_filename)
  have sent: "sendError (Some e) w = w\<lparr>errChan := offered e (errChan w)\<rparr>"
    by (simp add: sendError_def try_send_def split: option.splits)
  have err: "watchFS j (SelErrors (Recv (Some e)) # rest) w
     = watchFS j rest (w\<lparr>errChan := offered e (errChan w)\<rparr>)"
    by (simp only: watchFS.simps sent)
  have nil: "watchFS j (SelErrors (Recv None) # rest) w = watchFS j rest w"
    by (simp add: sendError_def split: option.splits)
  have closed: "watchFS j (SelErrors Closed # rest) w = Inr (w\<lparr>monitor := Returned\<rparr>)"
    "watchFS j (SelEvents Closed # rest) w = Inr (w\<lparr>monitor := Returned\<rparr>)"
    by simp_all
  from step one iff counted name err nil watchFS_errors [of j es w] closed
  show ?thesis by blast
qed

text \<open>
  C7 on a \<open>Chmod\<close> event, which changes nothing, on a \<open>Write\<close> event, which calls \<open>load\<close>,
  and on an error from the watch, which is in the channel afterwards while the loop runs.
\<close>

theorem watchFS_filters_events_witness:
  "\<not> (ev_Name (config_event fsnotify_Chmod) = filename (watcher_on (file_of ''2'') One)
       \<and> (bit (ev_Op (config_event fsnotify_Chmod)) 1 \<or> bit (ev_Op (config_event fsnotify_Chmod)) 0))
   \<and> watchFS level_codec [SelEvents (Recv (config_event fsnotify_Chmod))]
        (watcher_on (file_of ''2'') One) = Inr (watcher_on (file_of ''2'') One)
   \<and> (\<exists>w'. watchFS level_codec [SelEvents (Recv (config_event fsnotify_Write))]
              (watcher_on (file_of ''2'') One) = Inr w'
        \<and> loads w' = 1 \<and> Get w' = Two)
   \<and> (\<exists>w'. watchFS level_codec [SelEvents (Recv (config_event fsnotify_Create))]
              (watcher_on (file_of ''2'') One) = Inr w'
        \<and> loads w' = 1 \<and> Get w' = Two)
   \<and> (\<exists>w'. watchFS level_codec
              (map (\<lambda>e. SelErrors (Recv (Some e))) [WatchError ''overflow'', WatchError ''closed''])
              (watcher_on (file_of ''2'') One) = Inr w'
        \<and> monitor w' = Running \<and> loads w' = 0
        \<and> errChan w' = Some \<lparr>cap = 4, buf = [WatchError ''overflow'', WatchError ''closed'']\<rparr>)"
proof -
  let ?w = "watcher_on (file_of ''2'') One"
  let ?es = "[WatchError ''overflow'', WatchError ''closed'']"
  have h1: "\<not> (ev_Name (config_event fsnotify_Chmod) = filename ?w
       \<and> (bit (ev_Op (config_event fsnotify_Chmod)) 1 \<or> bit (ev_Op (config_event fsnotify_Chmod)) 0))"
    by (simp add: fsnotify_Chmod_def level_defs)
  have h3: "ev_Name (config_event fsnotify_Write) = filename ?w
       \<and> (bit (ev_Op (config_event fsnotify_Write)) 1 \<or> bit (ev_Op (config_event fsnotify_Write)) 0)"
    by (simp add: fsnotify_Write_def level_defs)
  have st: "errChan ?w = Some \<lparr>cap = 4, buf = []\<rparr>" "monitor ?w = Running" "loads ?w = 0"
    by (simp_all add: level_defs)
  obtain w1 where w1: "load level_codec ?w = Inr w1" "Get w1 = Two"
    by (simp add: go_defs level_defs)
  from watchFS_filters_events [of level_codec "config_event fsnotify_Chmod" "[]" ?w
      posix missing_file One "''c''" "[]" "WatchError ''x''" ?es] h1
  have c1: "watchFS level_codec [SelEvents (Recv (config_event fsnotify_Chmod))] ?w = Inr ?w"
    by blast
  from watchFS_filters_events [of level_codec "config_event fsnotify_Chmod" "[]" ?w
      posix missing_file One "''c''" "[]" "WatchError ''x''" ?es]
  have "\<exists>w'. watchFS level_codec (map (\<lambda>e. SelErrors (Recv (Some e))) ?es) ?w = Inr w'
         \<and> monitor w' = monitor ?w \<and> loads w' = loads ?w
         \<and> (\<forall>c. errChan ?w = Some c \<and> length (buf c) + length ?es \<le> cap c
               \<longrightarrow> errChan w' = Some (c\<lparr>buf := buf c @ ?es\<rparr>))"
    by blast
  with st have c2: "\<exists>w'. watchFS level_codec (map (\<lambda>e. SelErrors (Recv (Some e))) ?es) ?w = Inr w'
         \<and> monitor w' = Running \<and> loads w' = 0 \<and> errChan w' = Some \<lparr>cap = 4, buf = ?es\<rparr>"
    by auto
  from watchFS_filters_events [of level_codec "config_event fsnotify_Write" "[]" ?w
      posix missing_file One "''c''" "[]" "WatchError ''x''" "[]"]
  have x: "watchFS level_codec [SelEvents (Recv (config_event fsnotify_Write))] ?w
        = (if ev_Name (config_event fsnotify_Write) = filename ?w
            \<and> (bit (ev_Op (config_event fsnotify_Write)) 1
               \<or> bit (ev_Op (config_event fsnotify_Write)) 0)
           then load level_codec ?w else Inr ?w)"
    and y: "\<forall>w'. load level_codec ?w = Inr w' \<longrightarrow> loads w' = Suc (loads ?w)"
    by blast+
  have "watchFS level_codec [SelEvents (Recv (config_event fsnotify_Write))] ?w
        = load level_codec ?w"
    unfolding x using h3 by simp
  with y w1 st have c3: "\<exists>w'. watchFS level_codec [SelEvents (Recv (config_event fsnotify_Write))] ?w
        = Inr w' \<and> loads w' = 1 \<and> Get w' = Two"
    by simp
  obtain v1 where run1: "watchFS level_codec
        (map (\<lambda>e. SelErrors (Recv (Some e))) ?es) ?w = Inr v1"
    "errChan v1 = Some \<lparr>cap = 4, buf = ?es\<rparr>" "monitor v1 = Running"
    by (simp add: go_defs level_defs)
  obtain v2 where run2: "watchFS level_codec
        [SelEvents (Recv (config_event fsnotify_Create))] ?w = Inr v2"
    "loads v2 = 1" "Get v2 = Two"
    by (simp add: go_defs level_defs fsnotify_Create_def fsnotify_Write_def)
  obtain v3 where run3: "watchFS level_codec
        [SelEvents (Recv (config_event fsnotify_Write))] ?w = Inr v3"
    "loads v3 = 1" "Get v3 = Two"
    by (simp add: go_defs level_defs fsnotify_Create_def fsnotify_Write_def)
  from h1 c1 c2 c3 run1 run2 run3 show ?thesis by blast
qed

subsection \<open>Construction\<close>

text \<open>
  C9. \<open>NewWatcher\<close> runs the first \<open>load\<close> on a watcher without error channel and applies
  the options to the result. With \<open>WithErrorChan ch\<close>, the channel of the watcher returned
  holds only what the start of the file-system watch offered to it, whatever the file and
  the serializer did during the first \<open>load\<close>; the file and the value are those the first
  \<open>load\<close> left. \<open>NewWatcher\<close> returns whenever the default is not a nil interface value and
  the first \<open>load\<close> returns. A later \<open>sendError\<close> appends to the channel when there is one
  with room, and drops the error otherwise.
\<close>

theorem NewWatcher_options_after_load:
  "(\<forall>w1. load j \<lparr>subscriptions = 0, broadcasts = 0, val = d, filename = filepath_Abs os fname,
                 errChan = None, ctx_done = False, monitor = NotStarted, disk = f,
                 loads = 0\<rparr> = Inr w1 \<longrightarrow> errChan w1 = None)
   \<and> (\<forall>w. NewWatcher j os f d fname [WithErrorChan ch] = Inr w \<longrightarrow>
        (\<exists>w1. load j \<lparr>subscriptions = 0, broadcasts = 0, val = d,
                      filename = filepath_Abs os fname, errChan = None, ctx_done = False,
                      monitor = NotStarted, disk = f, loads = 0\<rparr> = Inr w1
           \<and> errChan w
             = (case fsnotify_NewWatcher os of
                  Some e \<Rightarrow> map_option (try_send e) ch
                | None \<Rightarrow>
                    (case fsw_Add os (filepath_Dir os (filepath_Abs os fname)) of
                       Some e \<Rightarrow> map_option (try_send e) ch
                     | None \<Rightarrow> ch))
           \<and> disk w = disk w1 \<and> Get w = Get w1))
   \<and> (\<forall>w1. dyn_type j d \<noteq> None
         \<and> load j \<lparr>subscriptions = 0, broadcasts = 0, val = d,
                   filename = filepath_Abs os fname, errChan = None, ctx_done = False,
                   monitor = NotStarted, disk = f, loads = 0\<rparr> = Inr w1
       \<longrightarrow> (\<exists>w. NewWatcher j os f d fname [WithErrorChan ch] = Inr w))
   \<and> errChan (sendError (Some e) w2)
     = (case errChan w2 of
          None \<Rightarrow> None
        | Some c \<Rightarrow> Some (if length (buf c) < cap c then c\<lparr>buf := buf c @ [e]\<rparr> else c))"
proof -
  let ?init = "\<lparr>subscriptions = 0, broadcasts = 0, val = d, filename = filepath_Abs os fname,
                 errChan = None, ctx_done = False, monitor = NotStarted, disk = f,
                 loads = 0\<rparr>"
  have first: "\<forall>w1. load j ?init = Inr w1 \<longrightarrow> errChan w1 = None"
    using load_no_sink [of ?init j] by simp
  have built: "\<forall>w. NewWatcher j os f d fname [WithErrorChan ch] = Inr w \<longrightarrow>
        (\<exists>w1. load j ?init = Inr w1
           \<and> errChan w
             = (case fsnotify_NewWatcher os of
                  Some e \<Rightarrow> map_option (try_send e) ch
                | None \<Rightarrow>
                    (case fsw_Add os (filepath_Dir os (filepath_Abs os fname)) of
                       Some e \<Rightarrow> map_option (try_send e) ch
                     | None \<Rightarrow> ch))
           \<and> disk w = disk w1 \<and> Get w = Get w1)"
    by (auto simp: NewWatcher_def Let_def WithErrorChan_def sendError_def Get_def
        split: option.splits sum.splits)
  have returns: "\<forall>w1. dyn_type j d \<noteq> None \<and> load j ?init = Inr w1
       \<longrightarrow> (\<exists>w. NewWatcher j os f d fname [WithErrorChan ch] = Inr w)"
    by (auto simp: NewWatcher_def Let_def split: option.splits)
  have later: "errChan (sendError (Some e) w2)
     = (case errChan w2 of
          None \<Rightarrow> None
        | Some c \<Rightarrow> Some (if length (buf c) < cap c then c\<lparr>buf := buf c @ [e]\<rparr> else c))"
    by (simp add: sendError_def try_send_def split: option.splits)
  from first built returns later show ?thesis by blast
qed

text \<open>
  C9 on a missing file: the first \<open>load\<close> fails to read it and the channel given by
  \<open>WithErrorChan\<close> is empty after construction, while the file has been created.
\<close>

theorem NewWatcher_options_after_load_witness:
  "os_ReadFile missing_file = Inl (IOError ''no such file or directory'')
   \<and> (\<exists>w. NewWatcher level_codec posix missing_file One ''config.json''
             [WithErrorChan (Some (sink 4))] = Inr w
        \<and> errChan w = Some \<lparr>cap = 4, buf = []\<rparr>
        \<and> content (disk w) = Some ''1''
        \<and> errChan (sendError (Some (IOError ''later'')) w)
            = Some \<lparr>cap = 4, buf = [IOError ''later'']\<rparr>)
   \<and> errChan (sendError (Some (IOError ''later'')) (watcher_on missing_file One\<lparr>errChan := Some (sink 0)\<rparr>))
       = Some \<lparr>cap = 0, buf = []\<rparr>
   \<and> errChan (sendError (Some (IOError ''later'')) (watcher_on missing_file One\<lparr>errChan := None\<rparr>))
       = None"
proof -
  have r: "os_ReadFile missing_file = Inl (IOError ''no such file or directory'')"
    by (simp add: os_ReadFile_def level_defs)
  have os: "fsnotify_NewWatcher posix = None"
    "fsw_Add posix (filepath_Dir posix (filepath_Abs posix ''config.json'')) = None"
    by (simp_all add: level_defs)
  obtain w where w: "NewWatcher level_codec posix missing_file One ''config.json''
        [WithErrorChan (Some (sink 4))] = Inr w" and d: "content (disk w) = Some ''1''"
    by (simp add: go_defs level_defs)
  from NewWatcher_options_after_load [of level_codec One posix "''config.json''" missing_file
      "Some (sink 4)" "IOError ''later''" "watcher_on missing_file One"] w
  have c: "errChan w = Some (sink 4)"
    by (auto simp: os)
  have later: "errChan (sendError (Some (IOError ''later'')) w)
        = (case errChan w of
             None \<Rightarrow> None
           | Some c \<Rightarrow> Some (if length (buf c) < cap c
                             then c\<lparr>buf := buf c @ [IOError ''later'']\<rparr> else c))"
    using NewWatcher_options_after_load [of level_codec One posix "''config.json''" missing_file
      "Some (sink 4)" "IOError ''later''" w]
    by blast
  have run: "errChan (sendError (Some (IOError ''later''))
        (watcher_on missing_file One\<lparr>errChan := Some (sink 0)\<rparr>)) = Some \<lparr>cap = 0, buf = []\<rparr>"
    "errChan (sendError (Some (IOError ''later''))
        (watcher_on missing_file One\<lparr>errChan := None\<rparr>)) = None"
    "errChan (sendError (Some (IOError ''later'')) (w\<lparr>errChan := Some (sink 4)\<rparr>))
        = Some \<lparr>cap = 4, buf = [IOError ''later'']\<rparr>"
    by (simp_all add: go_defs level_defs)
  from c have "w\<lparr>errChan := Some (sink 4)\<rparr> = w" by simp
  with run(3) have l2: "errChan (sendError (Some (IOError ''later'')) w)
        = Some \<lparr>cap = 4, buf = [IOError ''later'']\<rparr>"
    by simp
  from r w d c later l2 run(1,2) show ?thesis by (auto simp: sink_def)
qed

subsection \<open>Life cycle\<close>

lemma exec_lifecycle:
  "exec j c w = Inr w' \<Longrightarrow> ctx_done w' = ctx_done w \<and> monitor w' = monitor w"
  by (cases c) (auto simp: Subscribe_def dest: Save_fields split: sum.splits)

lemma calls_lifecycle:
  "calls j cs w = Inr w' \<Longrightarrow> ctx_done w' = ctx_done w \<and> monitor w' = monitor w"
proof (induction cs arbitrary: w)
  case Nil
  then show ?case by simp
next
  case (Cons c cs)
  then obtain w1 where e: "exec j c w = Inr w1" and r: "calls j cs w1 = Inr w'"
    by (auto split: sum.splits)
  from exec_lifecycle [OF e] Cons.IH [OF r] show ?case by simp
qed

lemma watchFS_lifecycle:
  "watchFS j sched w = Inr w' \<Longrightarrow>
   ctx_done w' = ctx_done w \<and> (monitor w' = monitor w \<or> monitor w' = Returned)"
proof (induction j sched w rule: watchFS.induct)
  case (4 j ev rest w)
  show ?case
  proof (cases "relevant w ev")
    case True
    with "4.prems" obtain w1 where l: "load j w = Inr w1" and r: "watchFS j rest w1 = Inr w'"
      by (auto split: sum.splits)
    from "4.IH"(1) [OF True l r] load_fields [OF l] show ?thesis by simp
  next
    case False
    with "4.prems" "4.IH"(2) show ?thesis by simp
  qed
qed (auto simp: sendError_fields split: if_splits)

lemma watchFS_keeps_running:
  "watchFS j sched w = Inr w' \<Longrightarrow> \<not> ctx_done w \<Longrightarrow>
   SelEvents Closed \<notin> set sched \<Longrightarrow> SelErrors Closed \<notin> set sched \<Longrightarrow>
   monitor w' = monitor w"
proof (induction j sched w rule: watchFS.induct)
  case (4 j ev rest w)
  show ?case
  proof (cases "relevant w ev")
    case True
    with "4.prems"(1) obtain w1 where l: "load j w = Inr w1" and r: "watchFS j rest w1 = Inr w'"
      by (auto split: sum.splits)
    from "4.prems" load_fields [OF l] have "\<not> ctx_done w1"
      "SelEvents Closed \<notin> set rest" "SelErrors Closed \<notin> set rest"
      by simp_all
    from "4.IH"(1) [OF True l r this] load_fields [OF l] show ?thesis by simp
  next
    case False
    with "4.prems" "4.IH"(2) show ?thesis by simp
  qed
qed (auto simp: sendError_fields split: if_splits)

lemma NewWatcher_starts:
  "fsnotify_NewWatcher os = None \<Longrightarrow> NewWatcher j os f d fname opts = Inr w \<Longrightarrow>
   \<not> ctx_done w \<and> monitor w = Running"
  by (auto simp: NewWatcher_def Let_def split: option.splits sum.splits)

text \<open>
  C8, as amended. No sequence of calls of the exported methods (\<open>Get\<close>, \<open>Subscribe\<close>,
  \<open>Save\<close>) cancels the context or changes the state of the monitor, and the loop of
  \<open>watchFS\<close> does not cancel the context either; \<open>NewWatcher\<close> leaves the context not
  cancelled and the monitor running when the watch could be created. While the context is
  not cancelled, the loop is still running after every schedule in which no channel is
  closed. The monitor can only go from its state to \<open>Returned\<close>. With a cancelled context
  the loop returns when its \<open>select\<close> takes the case of \<open>ctx.Done()\<close>, and the value that
  \<open>Get\<close> returns is the one held before; an event that \<open>select\<close> takes before that case
  is handled as any other and may call \<open>load\<close>.
\<close>

theorem no_teardown:
  "(\<forall>w'. calls j cs w = Inr w' \<longrightarrow> ctx_done w' = ctx_done w \<and> monitor w' = monitor w)
   \<and> (\<forall>w'. watchFS j sched w = Inr w' \<longrightarrow>
         ctx_done w' = ctx_done w \<and> (monitor w' = monitor w \<or> monitor w' = Returned))
   \<and> (\<forall>w'. watchFS j sched w = Inr w' \<and> \<not> ctx_done w
         \<and> SelEvents Closed \<notin> set sched \<and> SelErrors Closed \<notin> set sched
       \<longrightarrow> monitor w' = monitor w)
   \<and> (\<forall>w'. fsnotify_NewWatcher os = None \<and> NewWatcher j os f d fname opts = Inr w'
       \<longrightarrow> \<not> ctx_done w' \<and> monitor w' = Running)
   \<and> (ctx_done w \<longrightarrow>
        watchFS j (SelDone # rest) w = Inr (w\<lparr>monitor := Returned\<rparr>)
        \<and> Get (w\<lparr>monitor := Returned\<rparr>) = Get w)
   \<and> (\<not> ctx_done w \<longrightarrow> watchFS j (SelDone # rest) w = watchFS j rest w)
   \<and> (ctx_done w \<and> relevant w ev \<longrightarrow>
        watchFS j (SelEvents (Recv ev) # SelDone # rest) w
          = (case load j w of Inl p \<Rightarrow> Inl p | Inr w' \<Rightarrow> Inr (w'\<lparr>monitor := Returned\<rparr>)))"
proof -
  have a: "\<forall>w'. calls j cs w = Inr w' \<longrightarrow> ctx_done w' = ctx_done w \<and> monitor w' = monitor w"
    using calls_lifecycle by blast
  have b: "\<forall>w'. watchFS j sched w = Inr w' \<longrightarrow>
         ctx_done w' = ctx_done w \<and> (monitor w' = monitor w \<or> monitor w' = Returned)"
    using watchFS_lifecycle by blast
  have c: "\<forall>w'. watchFS j sched w = Inr w' \<and> \<not> ctx_done w
         \<and> SelEvents Closed \<notin> set sched \<and> SelErrors Closed \<notin> set sched
       \<longrightarrow> monitor w' = monitor w"
    using watchFS_keeps_running by blast
  have d: "\<forall>w'. fsnotify_NewWatcher os = None \<and> NewWatcher j os f d fname opts = Inr w'
       \<longrightarrow> \<not> ctx_done w' \<and> monitor w' = Running"
    using NewWatcher_starts [of os j f d fname opts] by blast
  have e: "ctx_done w \<longrightarrow>
        watchFS j (SelDone # rest) w = Inr (w\<lparr>monitor := Returned\<rparr>)
        \<and> Get (w\<lparr>monitor := Returned\<rparr>) = Get w"
    by (simp add: Get_def)
  have f: "\<not> ctx_done w \<longrightarrow> watchFS j (SelDone # rest) w = watchFS j rest w"
    by simp
  have g: "ctx_done w \<and> relevant w ev \<longrightarrow>
        watchFS j (SelEvents (Recv ev) # SelDone # rest) w
          = (case load j w of Inl p \<Rightarrow> Inl p | Inr w' \<Rightarrow> Inr (w'\<lparr>monitor := Returned\<rparr>))"
    by (cases "load j w") (auto dest: load_fields(3))
  from a b c d e f g show ?thesis by blast
qed

text \<open>
  C8 on a constructed watcher, which is running with its context not cancelled and stays
  so through a \<open>Save\<close> and through events of the watch, and on a watcher whose context is
  taken as cancelled: it returns at the case of \<open>ctx.Done()\<close>, and calls \<open>load\<close> first
  when the event is taken first.
\<close>

theorem no_teardown_witness:
  "fsnotify_NewWatcher posix = None
   \<and> (\<exists>w0 w1 w2. NewWatcher level_codec posix missing_file One ''config.json'' [] = Inr w0
        \<and> \<not> ctx_done w0 \<and> monitor w0 = Running
        \<and> calls level_codec [CallSave Two, CallSubscribe, CallGet] w0 = Inr w1
        \<and> \<not> ctx_done w1 \<and> monitor w1 = Running
        \<and> SelEvents Closed \<notin> set [SelDone, SelEvents (Recv (config_event fsnotify_Write))]
        \<and> SelErrors Closed \<notin> set [SelDone, SelEvents (Recv (config_event fsnotify_Write))]
        \<and> watchFS level_codec [SelDone, SelEvents (Recv (config_event fsnotify_Write))] w1
            = Inr w2
        \<and> monitor w2 = Running)
   \<and> ctx_done cancelled
   \<and> watchFS level_codec [SelDone, SelEvents (Recv (config_event fsnotify_Write))] cancelled
       = Inr (cancelled\<lparr>monitor := Returned\<rparr>)
   \<and> (\<exists>w'. watchFS level_codec [SelEvents (Recv (config_event fsnotify_Write)), SelDone]
              cancelled = Inr w'
        \<and> loads w' = 1 \<and> monitor w' = Returned)"
proof -
  let ?sched = "[SelDone, SelEvents (Recv (config_event fsnotify_Write))]"
  have h: "fsnotify_NewWatcher posix = None" "ctx_done cancelled"
    by (simp_all add: cancel_def level_defs)
  obtain w0 where w0: "NewWatcher level_codec posix missing_file One ''config.json'' [] = Inr w0"
    by (simp add: go_defs level_defs)
  obtain w1 where w1: "calls level_codec [CallSave Two, CallSubscribe, CallGet] w0 = Inr w1"
    and run1: "\<not> ctx_done w1" "monitor w1 = Running" "Get w1 = Two"
    using w0 by (auto simp: go_defs level_defs)
  obtain w2 where w2: "watchFS level_codec ?sched w1 = Inr w2"
    using w0 w1 by (auto simp: go_defs level_defs fsnotify_Write_def)
  have nc: "SelEvents Closed \<notin> set ?sched" "SelErrors Closed \<notin> set ?sched"
    by simp_all
  from no_teardown [of level_codec "[]" w0 "[]" posix missing_file One "''config.json''" "[]" "[]"]
    h w0
  have a0: "\<not> ctx_done w0 \<and> monitor w0 = Running" by blast
  from no_teardown [of level_codec "[CallSave Two, CallSubscribe, CallGet]" w0 "[]" posix missing_file One
      "''config.json''" "[]" "[]"] w1 a0
  have a1: "\<not> ctx_done w1 \<and> monitor w1 = Running" by simp
  from no_teardown [of level_codec "[]" w1 ?sched posix missing_file One
      "''config.json''" "[]" "[]"] w2 a1 nc
  have a2: "monitor w2 = Running" by simp
  from no_teardown [of level_codec "[]" cancelled "[]" posix missing_file One
      "''config.json''" "[]" "[SelEvents (Recv (config_event fsnotify_Write))]"] h
  have a3: "watchFS level_codec ?sched cancelled = Inr (cancelled\<lparr>monitor := Returned\<rparr>)"
    by simp
  obtain w4 where a4: "watchFS level_codec
        [SelEvents (Recv (config_event fsnotify_Write)), SelDone] cancelled = Inr w4"
    "loads w4 = 1" "monitor w4 = Returned"
    by (simp add: go_defs level_defs fsnotify_Write_def)
  from h w0 w1 run1 w2 nc a0 a1 a2 a3 a4 show ?thesis by blast
qed

text \<open>
  C8 as stated fails: from a constructed watcher no sequence of calls of the exported
  methods leads to a cancelled context or a returned monitor.
\<close>

theorem no_teardown_counterexample:
  "\<exists>w0. NewWatcher level_codec posix missing_file One ''config.json'' [] = Inr w0
     \<and> \<not> ctx_done w0 \<and> monitor w0 = Running
     \<and> \<not> (\<exists>cs w'. calls level_codec cs w0 = Inr w' \<and> (ctx_done w' \<or> monitor w' = Returned))"
proof -
  obtain w0 where w0: "NewWatcher level_codec posix missing_file One ''config.json'' [] = Inr w0"
    by (simp add: go_defs level_defs)
  have os: "fsnotify_NewWatcher posix = None" by (simp add: posix_def)
  from NewWatcher_starts [OF os w0] have s: "\<not> ctx_done w0 \<and> monitor w0 = Running" .
  have "\<not> (\<exists>cs w'. calls level_codec cs w0 = Inr w' \<and> (ctx_done w' \<or> monitor w' = Returned))"
    using s calls_lifecycle [of level_codec _ w0] by auto
  with w0 s show ?thesis by blast
qed

end
